theory Spec2Isabelle
  imports Main "HOL-Library.Word"
begin

unbundle bit_operations_syntax

section \<open>Go library functions used by package execution\<close>

text \<open>
  A Go \<^verbatim>\<open>string\<close> is a sequence of bytes, here a \<^typ>\<open>string\<close> (a list of 8-bit
  characters). A \<^verbatim>\<open>uint64\<close> is a 64-bit word; an \<^verbatim>\<open>int64\<close> is the same word read
  with \<^const>\<open>sint\<close>.
\<close>

type_synonym u64 = "64 word"

subsection \<open>Package strings\<close>

text \<open>\<^verbatim>\<open>strings.HasPrefix(s, prefix)\<close>.\<close>

definition HasPrefix :: "string \<Rightarrow> string \<Rightarrow> bool" where
  "HasPrefix s pre = (take (length pre) s = pre)"

text \<open>\<^verbatim>\<open>strings.TrimPrefix(s, prefix)\<close>: \<open>s\<close> without the prefix when it has it, else \<open>s\<close>.\<close>

definition TrimPrefix :: "string \<Rightarrow> string \<Rightarrow> string" where
  "TrimPrefix s pre = (if HasPrefix s pre then drop (length pre) s else s)"

text \<open>
  \<^verbatim>\<open>strings.TrimLeft(s, cutset)\<close>: every leading character that occurs in \<open>cutset\<close> is
  removed (the cutset is a set of characters, not a prefix). For an ASCII cutset this
  is the same on bytes as on code points.
\<close>

definition TrimLeft :: "string \<Rightarrow> string \<Rightarrow> string" where
  "TrimLeft s cutset = dropWhile (\<lambda>c. c \<in> set cutset) s"

subsection \<open>Package strconv\<close>

text \<open>The two causes a \<^verbatim>\<open>*strconv.NumError\<close> can carry.\<close>

datatype NumError = ErrSyntax | ErrRange

text \<open>\<^verbatim>\<open>lower(c) = c | ('x' - 'X')\<close> on a byte.\<close>

definition lower :: "nat \<Rightarrow> nat" where
  "lower c = c OR 32"

text \<open>
  The digit a byte stands for in the loop of \<^verbatim>\<open>ParseUint\<close>:
  \<^verbatim>\<open>
  case '0' <= c && c <= '9':                 d = c - '0'
  case 'a' <= lower(c) && lower(c) <= 'z':   d = lower(c) - 'a' + 10
  default:                                   return 0, syntaxError(fnParseUint, s0)
  \<close>
  (the case for \<^verbatim>\<open>'_'\<close> needs base 0 and is never taken with base 16).
\<close>

definition digit :: "char \<Rightarrow> nat option" where
  "digit ch =
     (let c = (of_char ch :: nat) in
      if 48 \<le> c \<and> c \<le> 57 then Some (c - 48)
      else if 97 \<le> lower c \<and> lower c \<le> 122 then Some (lower c - 97 + 10)
      else None)"

text \<open>\<^verbatim>\<open>cutoff = maxUint64/16 + 1\<close> and \<^verbatim>\<open>maxVal = 1<<64 - 1\<close>.\<close>

definition cutoff :: u64 where
  "cutoff = 2 ^ 60"

definition maxVal :: u64 where
  "maxVal = - 1"

text \<open>
  The loop of \<^verbatim>\<open>strconv.ParseUint(s, 16, 64)\<close> over the bytes of \<open>s\<close>, with the
  accumulator \<open>n\<close>. The result is Go's pair (value, error); \<open>None\<close> is \<^verbatim>\<open>nil\<close>.
  \<^verbatim>\<open>
  if d >= byte(base) { return 0, syntaxError(fnParseUint, s0) }
  if n >= cutoff     { return maxVal, rangeError(fnParseUint, s0) }
  n *= uint64(base)
  n1 := n + uint64(d)
  if n1 < n || n1 > maxVal { return maxVal, rangeError(fnParseUint, s0) }
  n = n1
  \<close>
\<close>

fun ParseUint_loop :: "string \<Rightarrow> u64 \<Rightarrow> u64 \<times> NumError option" where
  "ParseUint_loop [] n = (n, None)"
| "ParseUint_loop (ch # cs) n =
     (case digit ch of
        None \<Rightarrow> (0, Some ErrSyntax)
      | Some d \<Rightarrow>
          if d \<ge> 16 then (0, Some ErrSyntax)
          else if n \<ge> cutoff then (maxVal, Some ErrRange)
          else
            (let n16 = n * 16; n1 = n16 + of_nat d in
             if n1 < n16 \<or> n1 > maxVal then (maxVal, Some ErrRange)
             else ParseUint_loop cs n1))"

text \<open>\<^verbatim>\<open>strconv.ParseUint(s, 16, 64)\<close>: the empty string is a syntax error.\<close>

definition ParseUint :: "string \<Rightarrow> u64 \<times> NumError option" where
  "ParseUint s = (if s = [] then (0, Some ErrSyntax) else ParseUint_loop s 0)"

text \<open>
  \<^verbatim>\<open>strconv.ParseInt(s, 16, 64)\<close>: an optional sign, then \<^verbatim>\<open>ParseUint\<close>; a syntax
  error is passed on, a value of 2^63 or more (more than 2^63 after a minus sign) is a
  range error.
  \<^verbatim>\<open>
  if s == "" { return 0, syntaxError(fnParseInt, s) }
  s0 := s; neg := false
  if s[0] == '+' { s = s[1:] } else if s[0] == '-' { neg = true; s = s[1:] }
  un, err = ParseUint(s, base, bitSize)
  if err != nil && err.(*NumError).Err != ErrRange { ...; return 0, err }
  cutoff := uint64(1 << uint(bitSize-1))
  if !neg && un >= cutoff { return int64(cutoff - 1), rangeError(fnParseInt, s0) }
  if neg && un > cutoff   { return -int64(cutoff), rangeError(fnParseInt, s0) }
  n := int64(un)
  if neg { n = -n }
  return n, nil
  \<close>
\<close>

definition ParseInt :: "string \<Rightarrow> u64 \<times> NumError option" where
  "ParseInt s0 =
     (if s0 = [] then (0, Some ErrSyntax)
      else
        (let neg = (hd s0 = CHR ''-'');
             s = (if hd s0 = CHR ''+'' \<or> hd s0 = CHR ''-'' then tl s0 else s0);
             (un, err) = ParseUint s
         in if err = Some ErrSyntax then (0, err)
            else if \<not> neg \<and> un \<ge> 2 ^ 63 then (2 ^ 63 - 1, Some ErrRange)
            else if neg \<and> un > 2 ^ 63 then (- (2 ^ 63), Some ErrRange)
            else (if neg then - un else un, None)))"

section \<open>Package execution: the hex helpers and SyncInfo\<close>

text \<open>
  \<^verbatim>\<open>parseUintFromHex\<close>: the value, and separately whether the function writes its
  warning to the log (it does exactly when \<^verbatim>\<open>ParseUint\<close> returns an error).
  \<^verbatim>\<open>
  if hex == "" { return 0 }
  trimmed := strings.TrimPrefix(hex, "0x")
  if trimmed == "" { return 0 }
  result, err := strconv.ParseUint(trimmed, 16, 64)
  if err != nil { log.Printf("warning: ..."); return 0 }
  return result
  \<close>
\<close>

definition parseUintFromHex :: "string \<Rightarrow> u64" where
  "parseUintFromHex hex =
     (if hex = [] then 0
      else
        (let trimmed = TrimPrefix hex ''0x'' in
         if trimmed = [] then 0
         else
           (case ParseUint trimmed of
              (result, Some err) \<Rightarrow> 0
            | (result, None) \<Rightarrow> result)))"

definition parseUintFromHex_warns :: "string \<Rightarrow> bool" where
  "parseUintFromHex_warns hex =
     (hex \<noteq> [] \<and> TrimPrefix hex ''0x'' \<noteq> [] \<and> snd (ParseUint (TrimPrefix hex ''0x'')) \<noteq> None)"

record SyncInfo =
  CurrentBlockHex :: string
  HighestBlockHex :: string

definition currentBlock :: "SyncInfo \<Rightarrow> u64" where
  "currentBlock s = parseUintFromHex (CurrentBlockHex s)"

definition highestBlock :: "SyncInfo \<Rightarrow> u64" where
  "highestBlock s = parseUintFromHex (HighestBlockHex s)"

text \<open>
  \<^verbatim>\<open>
  h := s.highestBlock(); c := s.currentBlock()
  if h < c { return 0 }
  return h - c
  \<close>
\<close>

definition distance :: "SyncInfo \<Rightarrow> u64" where
  "distance s =
     (let h = highestBlock s; c = currentBlock s in
      if h < c then 0 else h - c)"

section \<open>Hexadecimal strings and their values\<close>

text \<open>
  What the specification calls a valid hex string: an optional prefix \<^verbatim>\<open>0x\<close>, then one
  or more hexadecimal digits (\<^verbatim>\<open>0-9\<close>, \<^verbatim>\<open>a-f\<close>, \<^verbatim>\<open>A-F\<close>, given by their byte
  codes). Its value is read digit by digit, most significant first, with no bound.
\<close>

definition isHexDigit :: "char \<Rightarrow> bool" where
  "isHexDigit ch =
     (let c = (of_char ch :: nat) in
      (48 \<le> c \<and> c \<le> 57) \<or> (97 \<le> c \<and> c \<le> 102) \<or> (65 \<le> c \<and> c \<le> 70))"

definition hexDigitValue :: "char \<Rightarrow> nat" where
  "hexDigitValue ch =
     (let c = (of_char ch :: nat) in
      if c \<le> 57 then c - 48 else if 97 \<le> c then c - 87 else c - 55)"

fun hexValueFrom :: "nat \<Rightarrow> string \<Rightarrow> nat" where
  "hexValueFrom a [] = a"
| "hexValueFrom a (c # cs) = hexValueFrom (16 * a + hexDigitValue c) cs"

definition hexDigitsOf :: "string \<Rightarrow> string" where
  "hexDigitsOf s = (if take 2 s = ''0x'' then drop 2 s else s)"

definition validHex :: "string \<Rightarrow> bool" where
  "validHex s = (hexDigitsOf s \<noteq> [] \<and> list_all isHexDigit (hexDigitsOf s))"

definition hexValue :: "string \<Rightarrow> nat" where
  "hexValue s = hexValueFrom 0 (hexDigitsOf s)"

section \<open>Package time\<close>

text \<open>
  An instant is a number of nanoseconds since the Unix epoch, a \<^verbatim>\<open>time.Duration\<close> a
  number of nanoseconds in the range of an \<^verbatim>\<open>int64\<close>.
\<close>

type_synonym Time = int
type_synonym Duration = int

definition Second :: Duration where
  "Second = 1000000000"

definition minDuration :: Duration where
  "minDuration = - (2 ^ 63)"

definition maxDuration :: Duration where
  "maxDuration = 2 ^ 63 - 1"

text \<open>
  \<^verbatim>\<open>time.Unix(sec, 0)\<close> stores \<^verbatim>\<open>sec + unixToInternal\<close> in an \<^verbatim>\<open>int64\<close>, with
  \<^verbatim>\<open>unixToInternal = 62135596800\<close> (the seconds from year 1 to 1970): the sum wraps
  for the largest values of \<open>sec\<close>, which have no corresponding time.
\<close>

definition unixToInternal :: int where
  "unixToInternal = 62135596800"

definition time_Unix :: "u64 \<Rightarrow> Time" where
  "time_Unix sec = (sint (sec + 62135596800) - unixToInternal) * Second"

text \<open>
  \<^verbatim>\<open>time.Since(t)\<close> with the wall clock reading \<open>now\<close>: \<^verbatim>\<open>now.Sub(t)\<close>, which is the
  difference when a \<^verbatim>\<open>Duration\<close> can hold it, and the minimum or maximum duration
  otherwise.
\<close>

definition time_Since :: "Time \<Rightarrow> Time \<Rightarrow> Duration" where
  "time_Since now t =
     (let d = now - t in
      if d < minDuration then minDuration else if d > maxDuration then maxDuration else d)"

text \<open>
  \<^verbatim>\<open>d.Truncate(m)\<close>: \<^verbatim>\<open>if m <= 0 { return d }; return d - d%m\<close>, where Go's
  remainder has the sign of \<open>d\<close>.
\<close>

definition Truncate :: "Duration \<Rightarrow> Duration \<Rightarrow> Duration" where
  "Truncate d m = (if m \<le> 0 then d else d - sgn d * (\<bar>d\<bar> mod m))"

section \<open>Package encoding/json\<close>

text \<open>
  \<^verbatim>\<open>json.Unmarshal\<close> first checks that the bytes are one well-formed JSON text and then
  stores the value in its target. A response body is modelled by what that check makes
  of it: \<open>Malformed\<close>, or the JSON value it holds, the members of an object in the order
  they are written (a name can occur twice). The strings are the decoded ones.
\<close>

datatype json =
    JNull
  | JBool bool
  | JNumber string
  | JString string
  | JArray "json list"
  | JObject "(string \<times> json) list"

datatype body = Malformed | Json json

datatype json_error = SyntaxError | UnmarshalTypeError

text \<open>
  A member of an object goes to the struct field whose name is equal to the member's,
  or else equal to it after case folding. For field names of ASCII letters the folding
  is: ASCII letters to upper case, the long s (U+017F, bytes C5 BF) to \<open>S\<close>, the Kelvin
  sign (U+212A, bytes E2 84 AA) to \<open>K\<close>; every other character outside ASCII folds to
  a character outside ASCII and is left as it is here.
\<close>

definition upperASCII :: "char \<Rightarrow> char" where
  "upperASCII ch =
     (let c = (of_char ch :: nat) in if 97 \<le> c \<and> c \<le> 122 then char_of (c - 32) else ch)"

fun foldName :: "string \<Rightarrow> string" where
  "foldName (c1 # c2 # c3 # cs) =
     (if c1 = CHR 0xC5 \<and> c2 = CHR 0xBF then CHR ''S'' # foldName (c3 # cs)
      else if c1 = CHR 0xE2 \<and> c2 = CHR 0x84 \<and> c3 = CHR 0xAA then CHR ''K'' # foldName cs
      else upperASCII c1 # foldName (c2 # c3 # cs))"
| "foldName [c1, c2] =
     (if c1 = CHR 0xC5 \<and> c2 = CHR 0xBF then [CHR ''S'']
      else upperASCII c1 # foldName [c2])"
| "foldName [c1] = [upperASCII c1]"
| "foldName [] = []"

definition findField :: "string list \<Rightarrow> string \<Rightarrow> string option" where
  "findField names key =
     (if key \<in> set names then Some key
      else find (\<lambda>f. foldName f = foldName key) names)"

text \<open>
  Storing a JSON value in a field of type \<^verbatim>\<open>string\<close> or \<^verbatim>\<open>bool\<close>: \<^verbatim>\<open>null\<close> leaves the
  field as it is, a value of the field's kind is stored, anything else is an
  \<^verbatim>\<open>UnmarshalTypeError\<close>. (The decoder keeps the first such error and goes on; its
  callers here drop the target whenever an error comes back, so the model stops at it.)
\<close>

fun unmarshal_string :: "json \<Rightarrow> string \<Rightarrow> json_error + string" where
  "unmarshal_string JNull cur = Inr cur"
| "unmarshal_string (JString s) cur = Inr s"
| "unmarshal_string j cur = Inl UnmarshalTypeError"

fun unmarshal_bool :: "json \<Rightarrow> bool \<Rightarrow> json_error + bool" where
  "unmarshal_bool JNull cur = Inr cur"
| "unmarshal_bool (JBool b) cur = Inr b"
| "unmarshal_bool j cur = Inl UnmarshalTypeError"

text \<open>
  Storing in a struct: \<^verbatim>\<open>null\<close> leaves it as it is, an object stores its members one
  after the other in the fields they name (a member that names no field is skipped),
  anything else is an \<^verbatim>\<open>UnmarshalTypeError\<close>.
\<close>

fun unmarshal_SyncInfo_members :: "(string \<times> json) list \<Rightarrow> SyncInfo \<Rightarrow> json_error + SyncInfo" where
  "unmarshal_SyncInfo_members [] v = Inr v"
| "unmarshal_SyncInfo_members ((k, j) # ms) v =
     (case findField [''currentBlock'', ''highestBlock''] k of
        None \<Rightarrow> unmarshal_SyncInfo_members ms v
      | Some f \<Rightarrow>
          if f = ''currentBlock'' then
            (case unmarshal_string j (CurrentBlockHex v) of
               Inl e \<Rightarrow> Inl e
             | Inr s \<Rightarrow> unmarshal_SyncInfo_members ms (v\<lparr>CurrentBlockHex := s\<rparr>))
          else
            (case unmarshal_string j (HighestBlockHex v) of
               Inl e \<Rightarrow> Inl e
             | Inr s \<Rightarrow> unmarshal_SyncInfo_members ms (v\<lparr>HighestBlockHex := s\<rparr>)))"

fun unmarshal_SyncInfo :: "json \<Rightarrow> SyncInfo \<Rightarrow> json_error + SyncInfo" where
  "unmarshal_SyncInfo JNull v = Inr v"
| "unmarshal_SyncInfo (JObject ms) v = unmarshal_SyncInfo_members ms v"
| "unmarshal_SyncInfo j v = Inl UnmarshalTypeError"

record Block =
  Timestamp :: string
  Number :: string

fun unmarshal_Block_members :: "(string \<times> json) list \<Rightarrow> Block \<Rightarrow> json_error + Block" where
  "unmarshal_Block_members [] v = Inr v"
| "unmarshal_Block_members ((k, j) # ms) v =
     (case findField [''timestamp'', ''number''] k of
        None \<Rightarrow> unmarshal_Block_members ms v
      | Some f \<Rightarrow>
          if f = ''timestamp'' then
            (case unmarshal_string j (Timestamp v) of
               Inl e \<Rightarrow> Inl e
             | Inr s \<Rightarrow> unmarshal_Block_members ms (v\<lparr>Timestamp := s\<rparr>))
          else
            (case unmarshal_string j (Number v) of
               Inl e \<Rightarrow> Inl e
             | Inr s \<Rightarrow> unmarshal_Block_members ms (v\<lparr>Number := s\<rparr>)))"

fun unmarshal_Block :: "json \<Rightarrow> Block \<Rightarrow> json_error + Block" where
  "unmarshal_Block JNull v = Inr v"
| "unmarshal_Block (JObject ms) v = unmarshal_Block_members ms v"
| "unmarshal_Block j v = Inl UnmarshalTypeError"

text \<open>
  The three wrappers \<^verbatim>\<open>JsonResultSync\<close>, \<^verbatim>\<open>JsonResultBool\<close> and \<^verbatim>\<open>JsonResultBlock\<close>
  have the one field \<^verbatim>\<open>Result\<close>, named \<^verbatim>\<open>result\<close> in JSON; \<open>dec\<close> stores a value in
  that field. \<open>Unmarshal dec zero b\<close> is \<^verbatim>\<open>json.Unmarshal(b, w)\<close> for a new wrapper \<open>w\<close>
  whose field holds \<open>zero\<close>: the error, or the field afterwards.
\<close>

fun unmarshal_Result_members ::
  "(json \<Rightarrow> 'a \<Rightarrow> json_error + 'a) \<Rightarrow> (string \<times> json) list \<Rightarrow> 'a \<Rightarrow> json_error + 'a" where
  "unmarshal_Result_members dec [] v = Inr v"
| "unmarshal_Result_members dec ((k, j) # ms) v =
     (case findField [''result''] k of
        None \<Rightarrow> unmarshal_Result_members dec ms v
      | Some f \<Rightarrow>
          (case dec j v of
             Inl e \<Rightarrow> Inl e
           | Inr v' \<Rightarrow> unmarshal_Result_members dec ms v'))"

fun Unmarshal :: "(json \<Rightarrow> 'a \<Rightarrow> json_error + 'a) \<Rightarrow> 'a \<Rightarrow> body \<Rightarrow> json_error + 'a" where
  "Unmarshal dec zero Malformed = Inl SyntaxError"
| "Unmarshal dec zero (Json JNull) = Inr zero"
| "Unmarshal dec zero (Json (JObject ms)) = unmarshal_Result_members dec ms zero"
| "Unmarshal dec zero (Json j) = Inl UnmarshalTypeError"

definition Unmarshal_JsonResultSync :: "body \<Rightarrow> json_error + SyncInfo" where
  "Unmarshal_JsonResultSync =
     Unmarshal unmarshal_SyncInfo \<lparr>CurrentBlockHex = [], HighestBlockHex = []\<rparr>"

definition Unmarshal_JsonResultBool :: "body \<Rightarrow> json_error + bool" where
  "Unmarshal_JsonResultBool = Unmarshal unmarshal_bool False"

definition Unmarshal_JsonResultBlock :: "body \<Rightarrow> json_error + Block" where
  "Unmarshal_JsonResultBlock = Unmarshal unmarshal_Block \<lparr>Timestamp = [], Number = []\<rparr>"

section \<open>Package execution: requests and errors\<close>

text \<open>
  The two payloads that \<^verbatim>\<open>getSyncing\<close> and \<^verbatim>\<open>getLatestBlock\<close> post:
  \<^verbatim>\<open>{"jsonrpc":"2.0","method":"eth_syncing","params":[],"id":1}\<close> and
  \<^verbatim>\<open>{"jsonrpc":"2.0","method":"eth_getBlockByNumber","params":["latest",false],"id":1}\<close>.
\<close>

datatype payload = Eth_syncing | Eth_getBlockByNumber

text \<open>
  What posting a payload to an address with a token and a timeout comes to:
  \<^verbatim>\<open>http.NewRequest\<close> fails, \<^verbatim>\<open>client.Do\<close> fails, or there is a response with a status
  code and a body (\<open>None\<close> when \<^verbatim>\<open>io.ReadAll\<close> fails). A \<open>network\<close> gives the reply to
  each request.
\<close>

datatype reply = NewRequestFails | DoFails | Response int "body option"

type_synonym network = "string \<Rightarrow> string \<Rightarrow> int \<Rightarrow> payload \<Rightarrow> reply"

datatype http_error = NewRequestError | DoError | StatusCodeError int | ReadAllError

datatype block_field = FieldNumber | FieldTimestamp

text \<open>
  The errors \<^verbatim>\<open>isReady\<close> returns, under the names of the specification's taxonomy:
  \<^item> \<open>TransportError\<close>: an error of \<^verbatim>\<open>request\<close>;
  \<^item> \<open>ProtocolError\<close>: an error of \<^verbatim>\<open>json.Unmarshal\<close>;
  \<^item> \<open>AmbiguousSyncStatus\<close>: \<^verbatim>\<open>errors.New("syncing is true, not expected")\<close>;
  \<^item> \<open>SyncLag dist tol\<close>: \<^verbatim>\<open>"syncing, distance %d blocks (tolerance: %d)"\<close>;
  \<^item> \<open>BlockDecodeError\<close>: \<^verbatim>\<open>"can not parse block number: %w"\<close> and
    \<^verbatim>\<open>"can not parse block timestamp: %w"\<close>;
  \<^item> \<open>StaleBlock age\<close>: \<^verbatim>\<open>"latest block is too old: %s"\<close> with the truncated age;
  \<^item> \<open>StallDetected elapsed\<close>: the error of the tracker's health check.
\<close>

datatype error =
    TransportError http_error
  | ProtocolError json_error
  | AmbiguousSyncStatus
  | SyncLag u64 u64
  | BlockDecodeError block_field NumError
  | StaleBlock Duration
  | StallDetected Duration

text \<open>
  \<^verbatim>\<open>
  req, err := http.NewRequest("POST", addr, bytes.NewBuffer(payload))
  if err != nil { return nil, err }
  ...
  resp, err := client.Do(req)
  if err != nil { return nil, err }
  if resp.StatusCode != 200 { return nil, fmt.Errorf("incorrect response status code: ...") }
  return io.ReadAll(resp.Body)
  \<close>
\<close>

definition request :: "network \<Rightarrow> string \<Rightarrow> string \<Rightarrow> int \<Rightarrow> payload \<Rightarrow> error + body" where
  "request net addr token timeout pl =
     (case net addr token timeout pl of
        NewRequestFails \<Rightarrow> Inl (TransportError NewRequestError)
      | DoFails \<Rightarrow> Inl (TransportError DoError)
      | Response code b \<Rightarrow>
          if code \<noteq> 200 then Inl (TransportError (StatusCodeError code))
          else (case b of None \<Rightarrow> Inl (TransportError ReadAllError) | Some bytes \<Rightarrow> Inr bytes))"

text \<open>
  \<^verbatim>\<open>getSyncing\<close> returns Go's pair of a \<^verbatim>\<open>*SyncInfo\<close> (\<open>None\<close> is \<^verbatim>\<open>nil\<close>) and an error.
  \<open>decodeSyncing\<close> is the part of it that follows the request, on the body received.
  \<^verbatim>\<open>
  body, err := request(addr, token, timeout, payload)
  if err != nil { return nil, err }
  resultSync := new(JsonResultSync)
  err = json.Unmarshal(body, resultSync)
  if err == nil { return &resultSync.Result, nil }
  // try parsing as bool
  resultBool := new(JsonResultBool)
  if err := json.Unmarshal(body, resultBool); err != nil { return nil, err }
  if resultBool.Result { return nil, errors.New("syncing is true, not expected") }
  return nil, nil
  \<close>
\<close>

definition decodeSyncing :: "body \<Rightarrow> error + SyncInfo option" where
  "decodeSyncing b =
     (case Unmarshal_JsonResultSync b of
        Inr resultSync \<Rightarrow> Inr (Some resultSync)
      | Inl err \<Rightarrow>
          (case Unmarshal_JsonResultBool b of
             Inl err' \<Rightarrow> Inl (ProtocolError err')
           | Inr resultBool \<Rightarrow> if resultBool then Inl AmbiguousSyncStatus else Inr None))"

definition getSyncing :: "network \<Rightarrow> string \<Rightarrow> string \<Rightarrow> int \<Rightarrow> error + SyncInfo option" where
  "getSyncing net addr token timeout =
     (case request net addr token timeout Eth_syncing of
        Inl err \<Rightarrow> Inl err
      | Inr b \<Rightarrow> decodeSyncing b)"

definition getLatestBlock :: "network \<Rightarrow> string \<Rightarrow> string \<Rightarrow> int \<Rightarrow> error + Block" where
  "getLatestBlock net addr token timeout =
     (case request net addr token timeout Eth_getBlockByNumber of
        Inl err \<Rightarrow> Inl err
      | Inr b \<Rightarrow>
          (case Unmarshal_JsonResultBlock b of
             Inl err \<Rightarrow> Inl (ProtocolError err)
           | Inr result \<Rightarrow> Inr result))"

section \<open>Package execution: Block\<close>

text \<open>
  \<^verbatim>\<open>
  timeHex := strings.TrimLeft(b.Timestamp, "0x")
  unixtime, err := strconv.ParseInt(timeHex, 16, 64)
  if err != nil { return time.Time{}, fmt.Errorf("can not parse block timestamp: %w", err) }
  return time.Unix(unixtime, 0), nil
  \<close>
\<close>

definition Block_time :: "Block \<Rightarrow> error + Time" where
  "Block_time b =
     (let timeHex = TrimLeft (Timestamp b) ''0x'' in
      case ParseInt timeHex of
        (unixtime, Some err) \<Rightarrow> Inl (BlockDecodeError FieldTimestamp err)
      | (unixtime, None) \<Rightarrow> Inr (time_Unix unixtime))"

text \<open>
  \<^verbatim>\<open>
  numHex := strings.TrimLeft(b.Number, "0x")
  blockNumber, err := strconv.ParseUint(numHex, 16, 64)
  if err != nil { return 0, fmt.Errorf("can not parse block number: %w", err) }
  return blockNumber, nil
  \<close>
\<close>

definition Block_number :: "Block \<Rightarrow> error + u64" where
  "Block_number b =
     (let numHex = TrimLeft (Number b) ''0x'' in
      case ParseUint numHex of
        (blockNumber, Some err) \<Rightarrow> Inl (BlockDecodeError FieldNumber err)
      | (blockNumber, None) \<Rightarrow> Inr blockNumber)"

text \<open>
  \<open>checkAge now b\<close> is \<^verbatim>\<open>b.checkAge()\<close> when \<^verbatim>\<open>time.Since\<close> reads the clock at \<open>now\<close>;
  \<open>None\<close> is \<^verbatim>\<open>nil\<close>.
  \<^verbatim>\<open>
  created, err := b.time()
  if err != nil { return err }
  age := time.Since(created)
  if age > 300*time.Second {
      return fmt.Errorf("latest block is too old: %s", age.Truncate(time.Second))
  }
  return nil
  \<close>
\<close>

definition checkAge :: "Time \<Rightarrow> Block \<Rightarrow> error option" where
  "checkAge now b =
     (case Block_time b of
        Inl err \<Rightarrow> Some err
      | Inr created \<Rightarrow>
          (let age = time_Since now created in
           if age > 300 * Second then Some (StaleBlock (Truncate age Second)) else None))"

section \<open>Package common: the block tracker\<close>

text \<open>
  Modelled from the spec: the type \<^verbatim>\<open>common.BlockTrack\<close> with its methods \<^verbatim>\<open>AddBlock\<close>
  and \<^verbatim>\<open>HealthCheck\<close> (package \<^verbatim>\<open>internal/common\<close> is not among the sources). The
  specification calls it LivenessTracker, with the state \<open>lastObservedNumber\<close> (optional)
  and \<open>lastAdvanceTime\<close> (set on construction to the time then), and the operations
  \<^item> observe(number): if \<open>number > lastObservedNumber\<close> (or the tracker has no prior
    observation), set \<open>lastObservedNumber = number\<close> and \<open>lastAdvanceTime = now\<close>;
    otherwise leave the state unchanged;
  \<^item> checkLiveness(): computes \<open>now - lastAdvanceTime\<close>; if this exceeds a stall
    threshold, returns \<open>Stalled{elapsed}\<close>.
  The stall threshold is left open by the specification and is a parameter here.
\<close>

record BlockTrack =
  lastObservedNumber :: "u64 option"
  lastAdvanceTime :: Time

definition newBlockTrack :: "Time \<Rightarrow> BlockTrack" where
  "newBlockTrack now = \<lparr>lastObservedNumber = None, lastAdvanceTime = now\<rparr>"

definition AddBlock :: "u64 \<Rightarrow> Time \<Rightarrow> BlockTrack \<Rightarrow> BlockTrack" where
  "AddBlock number now t =
     (case lastObservedNumber t of
        None \<Rightarrow> \<lparr>lastObservedNumber = Some number, lastAdvanceTime = now\<rparr>
      | Some prev \<Rightarrow>
          if number > prev then \<lparr>lastObservedNumber = Some number, lastAdvanceTime = now\<rparr>
          else t)"

definition HealthCheck :: "Duration \<Rightarrow> Time \<Rightarrow> BlockTrack \<Rightarrow> error option" where
  "HealthCheck stallThreshold now t =
     (let elapsed = now - lastAdvanceTime t in
      if elapsed > stallThreshold then Some (StallDetected elapsed) else None)"

section \<open>Package execution: isReady\<close>

text \<open>
  What one call of \<^verbatim>\<open>isReady\<close> does besides returning: its calls of \<^verbatim>\<open>request\<close> and
  the lines it logs, in order.
\<close>

datatype event =
    Requested string payload
  | LogParseWarning string
  | LogWithinTolerance u64 u64

text \<open>
  The clock as \<^verbatim>\<open>isReady\<close> reads it: in \<^verbatim>\<open>blockTrack.AddBlock\<close>, in \<^verbatim>\<open>block.checkAge\<close>
  and in \<^verbatim>\<open>blockTrack.HealthCheck\<close>.
\<close>

record clock =
  nowAddBlock :: Time
  nowCheckAge :: Time
  nowHealthCheck :: Time

text \<open>The warnings of \<^verbatim>\<open>s.distance()\<close>, which parses the highest block first.\<close>

definition distance_log :: "SyncInfo \<Rightarrow> event list" where
  "distance_log s =
     (if parseUintFromHex_warns (HighestBlockHex s) then [LogParseWarning (HighestBlockHex s)] else []) @
     (if parseUintFromHex_warns (CurrentBlockHex s) then [LogParseWarning (CurrentBlockHex s)] else [])"

text \<open>
  The second half of \<^verbatim>\<open>isReady\<close>, from \<^verbatim>\<open>// get latest block info\<close> on. The package
  variable \<^verbatim>\<open>blockTrack\<close> is passed in and returned.
  \<^verbatim>\<open>
  block, err := getLatestBlock(addr, token, timeout)
  if err != nil { return err }
  blockNumber, err := block.number()
  if err != nil { return err }
  blockTrack.AddBlock(blockNumber)
  if err := block.checkAge(); err != nil { return err }
  if err := blockTrack.HealthCheck(); err != nil { return err }
  return nil
  \<close>
\<close>

definition isReady_block ::
  "network \<Rightarrow> clock \<Rightarrow> Duration \<Rightarrow> string \<Rightarrow> string \<Rightarrow> int \<Rightarrow> BlockTrack
     \<Rightarrow> error option \<times> BlockTrack \<times> event list" where
  "isReady_block net clk stallThreshold addr token timeout blockTrack =
     (case getLatestBlock net addr token timeout of
        Inl err \<Rightarrow> (Some err, blockTrack, [Requested addr Eth_getBlockByNumber])
      | Inr block \<Rightarrow>
          (case Block_number block of
             Inl err \<Rightarrow> (Some err, blockTrack, [Requested addr Eth_getBlockByNumber])
           | Inr blockNumber \<Rightarrow>
               (let blockTrack' = AddBlock blockNumber (nowAddBlock clk) blockTrack in
                case checkAge (nowCheckAge clk) block of
                  Some err \<Rightarrow> (Some err, blockTrack', [Requested addr Eth_getBlockByNumber])
                | None \<Rightarrow>
                    (HealthCheck stallThreshold (nowHealthCheck clk) blockTrack', blockTrack',
                     [Requested addr Eth_getBlockByNumber]))))"

text \<open>
  \<^verbatim>\<open>isReady\<close>: the error (\<open>None\<close> is \<^verbatim>\<open>nil\<close>), the package variable \<^verbatim>\<open>blockTrack\<close>
  afterwards, and the events of the call.
  \<^verbatim>\<open>
  syncInfo, err := getSyncing(addr, token, timeout)
  if err != nil { return err }
  if syncInfo != nil {
      dist := syncInfo.distance()
      if dist > syncTolerance { return fmt.Errorf("syncing, distance %d blocks ...") }
      if dist > 0 { log.Printf("Node is syncing but within tolerance ...") }
  }
  \<close>
\<close>

definition isReady ::
  "network \<Rightarrow> clock \<Rightarrow> Duration \<Rightarrow> string \<Rightarrow> string \<Rightarrow> int \<Rightarrow> u64 \<Rightarrow> BlockTrack
     \<Rightarrow> error option \<times> BlockTrack \<times> event list" where
  "isReady net clk stallThreshold addr token timeout syncTolerance blockTrack =
     (case getSyncing net addr token timeout of
        Inl err \<Rightarrow> (Some err, blockTrack, [Requested addr Eth_syncing])
      | Inr None \<Rightarrow>
          (case isReady_block net clk stallThreshold addr token timeout blockTrack of
             (r, blockTrack', evs) \<Rightarrow> (r, blockTrack', Requested addr Eth_syncing # evs))
      | Inr (Some syncInfo) \<Rightarrow>
          (let dist = distance syncInfo in
           if dist > syncTolerance then
             (Some (SyncLag dist syncTolerance), blockTrack,
              Requested addr Eth_syncing # distance_log syncInfo)
           else
             (case isReady_block net clk stallThreshold addr token timeout blockTrack of
                (r, blockTrack', evs) \<Rightarrow>
                  (r, blockTrack',
                   Requested addr Eth_syncing # distance_log syncInfo @
                   (if dist > 0 then [LogWithinTolerance dist syncTolerance] else []) @ evs))))"

section \<open>Package common: the readiness state\<close>

text \<open>
  Modelled from the spec: the type \<^verbatim>\<open>common.State\<close> with its methods \<^verbatim>\<open>Error\<close> and
  \<^verbatim>\<open>SetHealthy\<close> (package \<^verbatim>\<open>internal/common\<close> is not among the sources). The
  specification calls it ReadinessState, with the fields \<open>healthy\<close> and \<open>lastError\<close>
  (optional): markHealthy() sets \<open>healthy = true\<close> and clears \<open>lastError\<close>;
  markUnhealthy(error) sets \<open>healthy = false\<close> and stores the error.
\<close>

record State =
  healthy :: bool
  lastError :: "error option"

definition State_Error :: "error \<Rightarrow> State \<Rightarrow> State" where
  "State_Error err st = \<lparr>healthy = False, lastError = Some err\<rparr>"

definition State_SetHealthy :: "State \<Rightarrow> State" where
  "State_SetHealthy st = \<lparr>healthy = True, lastError = None\<rparr>"

section \<open>Package execution: the update loop\<close>

text \<open>
  A \<open>turn\<close> holds what the world gives to one turn of the loop of \<^verbatim>\<open>update\<close>: the
  network's replies, the clock, and the token that \<^verbatim>\<open>genToken\<close> makes (package
  \<^verbatim>\<open>execution\<close>'s JWT code is not among the sources; the token only travels to the
  network).
\<close>

record turn =
  turnNet :: network
  turnClock :: clock
  turnToken :: string

text \<open>
  The body of the loop, on the readiness state of the updater and the package variable
  \<^verbatim>\<open>blockTrack\<close>; \<open>hasSecret\<close> is \<^verbatim>\<open>secret != nil\<close>. The tracker is not among the
  arguments of \<^verbatim>\<open>isReady\<close>: every call works on the one package variable
  \<^verbatim>\<open>var blockTrack common.BlockTrack\<close>.
  \<^verbatim>\<open>
  var token string
  if secret != nil { token = genToken(secret) }
  err := isReady(addr, token, timeout, syncTolerance)
  if err != nil { state.Error(err) } else { state.SetHealthy() }
  \<close>
\<close>

definition update_body ::
  "Duration \<Rightarrow> string \<Rightarrow> int \<Rightarrow> bool \<Rightarrow> u64 \<Rightarrow> turn \<Rightarrow> State \<times> BlockTrack \<Rightarrow> State \<times> BlockTrack" where
  "update_body stallThreshold addr timeout hasSecret syncTolerance w sb =
     (let token = (if hasSecret then turnToken w else []) in
      case isReady (turnNet w) (turnClock w) stallThreshold addr token timeout syncTolerance (snd sb) of
        (err, blockTrack', evs) \<Rightarrow>
          (case err of
             Some e \<Rightarrow> (State_Error e (fst sb), blockTrack')
           | None \<Rightarrow> (State_SetHealthy (fst sb), blockTrack')))"

text \<open>
  The loop \<^verbatim>\<open>for { time.Sleep(time.Second); ... }\<close> never returns; \<open>update\<close> runs its
  body over the turns given, the first turns of the loop, and returns the state after
  them.
\<close>

fun update ::
  "Duration \<Rightarrow> string \<Rightarrow> int \<Rightarrow> bool \<Rightarrow> u64 \<Rightarrow> turn list \<Rightarrow> State \<times> BlockTrack \<Rightarrow> State \<times> BlockTrack" where
  "update stallThreshold addr timeout hasSecret syncTolerance [] sb = sb"
| "update stallThreshold addr timeout hasSecret syncTolerance (w # ws) sb =
     update stallThreshold addr timeout hasSecret syncTolerance ws
       (update_body stallThreshold addr timeout hasSecret syncTolerance w sb)"

text \<open>
  Several updaters in one process, each with its own target address, take their turns
  in some order; every turn calls \<^verbatim>\<open>isReady\<close> for the address of its updater, on the one
  package variable. \<open>run_turns\<close> returns the verdict of each turn and the variable
  afterwards.
\<close>

fun run_turns ::
  "Duration \<Rightarrow> int \<Rightarrow> u64 \<Rightarrow> (string \<times> turn) list \<Rightarrow> BlockTrack \<Rightarrow> error option list \<times> BlockTrack" where
  "run_turns stallThreshold timeout syncTolerance [] blockTrack = ([], blockTrack)"
| "run_turns stallThreshold timeout syncTolerance ((addr, w) # ts) blockTrack =
     (case isReady (turnNet w) (turnClock w) stallThreshold addr (turnToken w) timeout
             syncTolerance blockTrack of
        (err, blockTrack', evs) \<Rightarrow>
          (case run_turns stallThreshold timeout syncTolerance ts blockTrack' of
             (errs, blockTrack'') \<Rightarrow> (err # errs, blockTrack'')))"

text \<open>
  The block number that a turn for an address feeds to the tracker, if it gets that far:
  the sync step passes, the latest block arrives and its number parses.
\<close>

definition turn_observes :: "int \<Rightarrow> u64 \<Rightarrow> string \<times> turn \<Rightarrow> u64 option" where
  "turn_observes timeout syncTolerance t =
     (case getSyncing (turnNet (snd t)) (fst t) (turnToken (snd t)) timeout of
        Inl err \<Rightarrow> None
      | Inr syncInfo \<Rightarrow>
          if (case syncInfo of None \<Rightarrow> False | Some si \<Rightarrow> distance si > syncTolerance) then None
          else
            (case getLatestBlock (turnNet (snd t)) (fst t) (turnToken (snd t)) timeout of
               Inl err \<Rightarrow> None
             | Inr block \<Rightarrow>
                 (case Block_number block of Inl err \<Rightarrow> None | Inr blockNumber \<Rightarrow> Some blockNumber)))"

text \<open>
  What one turn does to the tracker: nothing, or the observation of its block number at
  the time the turn's clock shows in \<^verbatim>\<open>AddBlock\<close>.
\<close>

definition feed :: "int \<Rightarrow> u64 \<Rightarrow> BlockTrack \<Rightarrow> string \<times> turn \<Rightarrow> BlockTrack" where
  "feed timeout syncTolerance blockTrack t =
     (case turn_observes timeout syncTolerance t of
        None \<Rightarrow> blockTrack
      | Some n \<Rightarrow> AddBlock n (nowAddBlock (turnClock (snd t))) blockTrack)"

section \<open>Polling the tracker\<close>

text \<open>
  A sequence of polls of the tracker alone: each poll observes a block number at one
  time and asks for the verdict at a later one. The result is the list of verdicts.
\<close>

fun poll_all :: "Duration \<Rightarrow> (u64 \<times> Time \<times> Time) list \<Rightarrow> BlockTrack \<Rightarrow> error option list" where
  "poll_all stallThreshold [] t = []"
| "poll_all stallThreshold ((number, observed, checked) # ps) t =
     (let t' = AddBlock number observed t in
      HealthCheck stallThreshold checked t' # poll_all stallThreshold ps t')"

section \<open>Example nodes\<close>

text \<open>
  Response bodies as a node sends them: \<^verbatim>\<open>{"result": j}\<close>, the sync object
  \<^verbatim>\<open>{"currentBlock": cur, "highestBlock": high}\<close> and the block object
  \<^verbatim>\<open>{"number": num, "timestamp": ts}\<close>; and a node that answers every sync request with
  one body and every block request with another, both with status 200.
\<close>

definition rpc_result :: "json \<Rightarrow> body" where
  "rpc_result j = Json (JObject [(''result'', j)])"

definition sync_object :: "string \<Rightarrow> string \<Rightarrow> json" where
  "sync_object cur high = JObject [(''currentBlock'', JString cur), (''highestBlock'', JString high)]"

definition block_object :: "string \<Rightarrow> string \<Rightarrow> json" where
  "block_object num ts = JObject [(''number'', JString num), (''timestamp'', JString ts)]"

definition node :: "body \<Rightarrow> body \<Rightarrow> network" where
  "node syncBody blockBody =
     (\<lambda>addr token timeout pl.
        case pl of
          Eth_syncing \<Rightarrow> Response 200 (Some syncBody)
        | Eth_getBlockByNumber \<Rightarrow> Response 200 (Some blockBody))"

text \<open>A clock that shows the same time at every reading of one call.\<close>

definition clock_at :: "Time \<Rightarrow> clock" where
  "clock_at t = \<lparr>nowAddBlock = t, nowCheckAge = t, nowHealthCheck = t\<rparr>"

text \<open>A node that answers every request with the given status code and no readable body.\<close>

definition failing_node :: "int \<Rightarrow> network" where
  "failing_node code = (\<lambda>addr token timeout pl. Response code None)"

text \<open>One network for two targets: the node \<open>na\<close> at address \<open>a\<close>, the node \<open>nb\<close> elsewhere.\<close>

definition two_nodes :: "string \<Rightarrow> network \<Rightarrow> network \<Rightarrow> network" where
  "two_nodes a na nb = (\<lambda>addr. if addr = a then na addr else nb addr)"

text \<open>
  Two targets behind one network: the node at address \<open>a\<close> is at block 0x64 with the
  timestamp 0x44c (1100), every other address reaches a node that stays at block 0x5
  with the timestamp 0x3e8 (1000); neither is syncing. A turn at time \<open>t\<close> sees this
  network with every clock reading at \<open>t\<close> and no token.
\<close>

definition stuck_and_live :: network where
  "stuck_and_live =
     two_nodes ''a''
       (node (rpc_result (JBool False)) (rpc_result (block_object ''0x64'' ''0x44c'')))
       (node (rpc_result (JBool False)) (rpc_result (block_object ''0x5'' ''0x3e8'')))"

definition turn_at :: "Time \<Rightarrow> turn" where
  "turn_at t = \<lparr>turnNet = stuck_and_live, turnClock = clock_at t, turnToken = []\<rparr>"

section \<open>Predicates of the statements\<close>

text \<open>
  The sync step of \<^verbatim>\<open>isReady\<close> passes on what \<^verbatim>\<open>getSyncing\<close> returned: no sync
  information, or a distance within the tolerance.
\<close>

definition sync_passes :: "SyncInfo option \<Rightarrow> u64 \<Rightarrow> bool" where
  "sync_passes s tol = (case s of None \<Rightarrow> True | Some si \<Rightarrow> distance si \<le> tol)"

section \<open>The conversion loop of ParseUint\<close>

lemma lower_eq: "lower c = c + of_bool (\<not> bit c 5) * 32"
proof -
  have "lower c = set_bit 5 c"
    by (simp add: lower_def set_bit_eq_or)
  then show ?thesis
    by (simp add: set_bit_eq)
qed

lemma bit5_upper: "65 \<le> c \<Longrightarrow> c \<le> (70::nat) \<Longrightarrow> \<not> bit c 5"
proof -
  assume "65 \<le> c" "c \<le> 70"
  then have "c \<in> {65, 66, 67, 68, 69, 70}" by auto
  then show ?thesis by (auto simp: bit_iff_odd)
qed

lemma bit5_lower: "97 \<le> c \<Longrightarrow> c \<le> (102::nat) \<Longrightarrow> bit c 5"
proof -
  assume "97 \<le> c" "c \<le> 102"
  then have "c \<in> {97, 98, 99, 100, 101, 102}" by auto
  then show ?thesis by (auto simp: bit_iff_odd)
qed

lemma digit_hex:
  "isHexDigit ch \<Longrightarrow> digit ch = Some (hexDigitValue ch) \<and> hexDigitValue ch < 16"
  unfolding isHexDigit_def digit_def hexDigitValue_def Let_def
  by (auto simp: lower_eq bit5_upper bit5_lower)

lemma digit_not_hex: "\<not> isHexDigit ch \<Longrightarrow> digit ch = Some d \<Longrightarrow> 16 \<le> d"
  unfolding isHexDigit_def digit_def Let_def
  by (cases "bit (of_char ch :: nat) 5") (auto simp: lower_eq split: if_splits)

lemma hexValueFrom_ge: "a \<le> hexValueFrom a cs"
proof (induction cs arbitrary: a)
  case Nil
  show ?case by simp
next
  case (Cons c cs)
  have "a \<le> 16 * a + hexDigitValue c" by simp
  also have "\<dots> \<le> hexValueFrom (16 * a + hexDigitValue c) cs" by (rule Cons.IH)
  finally show ?case by simp
qed

text \<open>Below the cutoff, one step of the loop neither wraps nor trips the range check.\<close>

lemma step_word:
  fixes n :: u64
  assumes "\<not> cutoff \<le> n" "d < 16"
  shows "unat (n * 16 + of_nat d) = 16 * unat n + d"
    and "\<not> (n * 16 + of_nat d < n * 16)"
    and "\<not> (n * 16 + of_nat d > maxVal)"
proof -
  have n: "unat n < 2 ^ 60"
    using assms(1) by (simp add: cutoff_def word_le_nat_alt)
  have "16 * unat n + d < 2 ^ 64"
    using n assms(2) by simp
  then show u: "unat (n * 16 + of_nat d) = 16 * unat n + d"
    by (simp add: unat_word_ariths unat_of_nat take_bit_nat_eq_self_iff mult.commute)
  have "unat (n * 16) = 16 * unat n"
    using n by (simp add: unat_word_ariths take_bit_nat_eq_self_iff mult.commute)
  then show "\<not> (n * 16 + of_nat d < n * 16)"
    using u by (simp add: word_less_nat_alt)
  show "\<not> (n * 16 + of_nat d > maxVal)"
    by (simp add: maxVal_def not_less)
qed

text \<open>
  On hexadecimal digits the loop computes the value exactly when it is below 2^64, and
  reports a range error otherwise.
\<close>

lemma ParseUint_loop_hex:
  "\<forall>c\<in>set cs. isHexDigit c \<Longrightarrow>
   ParseUint_loop cs n =
     (if hexValueFrom (unat n) cs < 2 ^ 64 then (word_of_nat (hexValueFrom (unat n) cs), None)
      else (maxVal, Some ErrRange))"
proof (induction cs arbitrary: n)
  case Nil
  have "unat n < 2 ^ 64" using unsigned_less [of n] by simp
  then show ?case by simp
next
  case (Cons c cs)
  from Cons.prems have hc: "isHexDigit c" and hcs: "\<forall>c\<in>set cs. isHexDigit c" by simp_all
  note dv = digit_hex [OF hc]
  show ?case
  proof (cases "cutoff \<le> n")
    case True
    then have "2 ^ 60 \<le> unat n" by (simp add: cutoff_def word_le_nat_alt)
    then have "2 ^ 64 \<le> 16 * unat n + hexDigitValue c" by simp
    also have "\<dots> \<le> hexValueFrom (16 * unat n + hexDigitValue c) cs" by (rule hexValueFrom_ge)
    finally show ?thesis using True dv by simp
  next
    case False
    note sw = step_word [OF False conjunct2 [OF dv]]
    show ?thesis
      using False dv sw Cons.IH [OF hcs, of "n * 16 + of_nat (hexDigitValue c)"]
      by (simp add: Let_def)
  qed
qed

text \<open>A byte that is no hexadecimal digit makes the loop fail.\<close>

lemma ParseUint_loop_bad:
  "\<not> (\<forall>c\<in>set cs. isHexDigit c) \<Longrightarrow> snd (ParseUint_loop cs n) \<noteq> None"
proof (induction cs arbitrary: n)
  case Nil
  then show ?case by simp
next
  case (Cons c cs)
  show ?case
  proof (cases "isHexDigit c")
    case True
    with Cons.prems have "\<not> (\<forall>c\<in>set cs. isHexDigit c)" by simp
    from Cons.IH [OF this] show ?thesis
      by (simp add: Let_def split: option.splits)
  next
    case False
    then show ?thesis
      using digit_not_hex [OF False]
      by (auto simp: Let_def split: option.splits)
  qed
qed

lemma ParseUint_hex:
  assumes "ds \<noteq> []" "list_all isHexDigit ds"
  shows "ParseUint ds =
     (if hexValueFrom 0 ds < 2 ^ 64 then (word_of_nat (hexValueFrom 0 ds), None)
      else (maxVal, Some ErrRange))"
  using assms ParseUint_loop_hex [of ds 0]
  by (simp add: ParseUint_def list_all_iff)

lemma ParseUint_bad:
  assumes "\<not> list_all isHexDigit ds"
  shows "snd (ParseUint ds) \<noteq> None"
  using assms ParseUint_loop_bad [of ds 0]
  by (simp add: ParseUint_def list_all_iff)

lemma TrimPrefix_0x: "TrimPrefix s ''0x'' = hexDigitsOf s"
  by (simp add: TrimPrefix_def HasPrefix_def hexDigitsOf_def numeral_2_eq_2)

section \<open>The best-effort parser and the sync distance\<close>

lemma parseUintFromHex_valid:
  assumes "validHex s"
  shows "parseUintFromHex s = (if hexValue s < 2 ^ 64 then word_of_nat (hexValue s) else 0)"
proof -
  from assms have ds: "hexDigitsOf s \<noteq> []" "list_all isHexDigit (hexDigitsOf s)"
    by (simp_all add: validHex_def)
  have ne: "s \<noteq> []" using ds(1) by (auto simp: hexDigitsOf_def)
  have "parseUintFromHex s =
      (case ParseUint (hexDigitsOf s) of (result, Some err) \<Rightarrow> 0 | (result, None) \<Rightarrow> result)"
    using ne ds(1) by (simp add: parseUintFromHex_def TrimPrefix_0x Let_def)
  also have "\<dots> = (if hexValue s < 2 ^ 64 then word_of_nat (hexValue s) else 0)"
    unfolding ParseUint_hex [OF ds] hexValue_def by simp
  finally show ?thesis .
qed

lemma parseUintFromHex_invalid:
  assumes "\<not> validHex s"
  shows "parseUintFromHex s = 0"
proof (cases "hexDigitsOf s = []")
  case True
  then show ?thesis by (simp add: parseUintFromHex_def TrimPrefix_0x Let_def)
next
  case False
  with assms have "\<not> list_all isHexDigit (hexDigitsOf s)" by (simp add: validHex_def)
  from ParseUint_bad [OF this] obtain r e where pu: "ParseUint (hexDigitsOf s) = (r, Some e)"
    by (cases "ParseUint (hexDigitsOf s)") auto
  show ?thesis
    by (simp add: parseUintFromHex_def TrimPrefix_0x Let_def pu)
qed

text \<open>
  C4: when the decoded highest block is below the decoded current block, \<open>distance\<close> is 0
  and does not wrap around (also when the two are equal, as when both are zero or both
  fields failed to parse); otherwise it is exactly the difference of the two.
\<close>

theorem distance_clamped:
  "(highestBlock s \<le> currentBlock s \<longrightarrow> distance s = 0) \<and>
   (\<not> highestBlock s < currentBlock s \<longrightarrow>
      uint (distance s) = uint (highestBlock s) - uint (currentBlock s))"
proof (cases "highestBlock s < currentBlock s")
  case True
  then show ?thesis by (simp add: distance_def)
next
  case False
  then have le: "currentBlock s \<le> highestBlock s" by simp
  have d: "distance s = highestBlock s - currentBlock s"
    using False by (simp add: distance_def)
  have "uint (highestBlock s - currentBlock s) = uint (highestBlock s) - uint (currentBlock s)"
    using le by (simp only: uint_minus_simple_alt)
  moreover have "highestBlock s \<le> currentBlock s \<longrightarrow> highestBlock s - currentBlock s = 0"
    using le by auto
  ultimately show ?thesis using d False by simp
qed

theorem distance_clamped_witness:
  "highestBlock \<lparr>CurrentBlockHex = ''0x64'', HighestBlockHex = ''0x5a''\<rparr>
     \<le> currentBlock \<lparr>CurrentBlockHex = ''0x64'', HighestBlockHex = ''0x5a''\<rparr> \<and>
   distance \<lparr>CurrentBlockHex = ''0x64'', HighestBlockHex = ''0x5a''\<rparr> = 0 \<and>
   \<not> highestBlock \<lparr>CurrentBlockHex = ''0x5a'', HighestBlockHex = ''0x64''\<rparr>
     < currentBlock \<lparr>CurrentBlockHex = ''0x5a'', HighestBlockHex = ''0x64''\<rparr> \<and>
   uint (distance \<lparr>CurrentBlockHex = ''0x5a'', HighestBlockHex = ''0x64''\<rparr>) = 10"
proof -
  have a: "highestBlock \<lparr>CurrentBlockHex = ''0x64'', HighestBlockHex = ''0x5a''\<rparr> = 90"
    by code_simp
  have b: "currentBlock \<lparr>CurrentBlockHex = ''0x64'', HighestBlockHex = ''0x5a''\<rparr> = 100"
    by code_simp
  have c: "highestBlock \<lparr>CurrentBlockHex = ''0x5a'', HighestBlockHex = ''0x64''\<rparr> = 100"
    by code_simp
  have d: "currentBlock \<lparr>CurrentBlockHex = ''0x5a'', HighestBlockHex = ''0x64''\<rparr> = 90"
    by code_simp
  show ?thesis
    using distance_clamped [of "\<lparr>CurrentBlockHex = ''0x64'', HighestBlockHex = ''0x5a''\<rparr>"]
      distance_clamped [of "\<lparr>CurrentBlockHex = ''0x5a'', HighestBlockHex = ''0x64''\<rparr>"]
    by (simp add: a b c d word_le_def word_less_def)
qed

text \<open>
  C5, as amended: \<open>parseUintFromHex\<close> returns for every string (the model has no failing
  branch, as the source has none); the empty string, the bare prefix and every string
  that is not a valid hex string give 0; a valid hex string gives its value when the
  value is below 2^64, and 0 when it is not.
\<close>

theorem parseUintFromHex_total:
  "parseUintFromHex [] = 0 \<and> parseUintFromHex ''0x'' = 0 \<and>
   (\<not> validHex s \<longrightarrow> parseUintFromHex s = 0) \<and>
   (validHex t \<and> hexValue t < 2 ^ 64 \<longrightarrow> unat (parseUintFromHex t) = hexValue t) \<and>
   (validHex t \<and> 2 ^ 64 \<le> hexValue t \<longrightarrow> parseUintFromHex t = 0) \<and>
   parseUintFromHex ''0x1a'' = 26"
proof -
  have e: "parseUintFromHex [] = 0" by (simp add: parseUintFromHex_def)
  have p: "parseUintFromHex ''0x'' = 0" by code_simp
  have x: "parseUintFromHex ''0x1a'' = 26" by code_simp
  have v: "validHex t \<and> hexValue t < 2 ^ 64 \<longrightarrow> unat (parseUintFromHex t) = hexValue t"
    by (simp add: parseUintFromHex_valid unat_of_nat take_bit_nat_eq_self_iff)
  have r: "validHex t \<and> 2 ^ 64 \<le> hexValue t \<longrightarrow> parseUintFromHex t = 0"
    by (simp add: parseUintFromHex_valid)
  show ?thesis using e p x v r parseUintFromHex_invalid by blast
qed

theorem parseUintFromHex_total_witness:
  "\<not> validHex ''0xzz'' \<and> parseUintFromHex ''0xzz'' = 0 \<and>
   validHex ''0xFf'' \<and> hexValue ''0xFf'' < 2 ^ 64 \<and> unat (parseUintFromHex ''0xFf'') = 255 \<and>
   validHex ''0x10000000000000000'' \<and> 2 ^ 64 \<le> hexValue ''0x10000000000000000'' \<and>
   parseUintFromHex ''0x10000000000000000'' = 0"
proof -
  have a: "\<not> validHex ''0xzz''"
    by (simp add: validHex_def hexDigitsOf_def isHexDigit_def)
  have b: "validHex ''0xFf''"
    by (simp add: validHex_def hexDigitsOf_def isHexDigit_def)
  have c: "hexValue ''0xFf'' = 255"
    by (simp add: hexValue_def hexDigitsOf_def hexDigitValue_def)
  have d: "validHex ''0x10000000000000000''"
    by (simp add: validHex_def hexDigitsOf_def isHexDigit_def)
  have e: "hexValue ''0x10000000000000000'' = 2 ^ 64"
    by (simp add: hexValue_def hexDigitsOf_def hexDigitValue_def)
  show ?thesis
    using parseUintFromHex_total [of "''0xzz''" "''0xFf''"]
      parseUintFromHex_total [of "''0xzz''" "''0x10000000000000000''"]
    by (simp add: a b c d e)
qed

text \<open>
  The claim as stated fails for a valid hex string of 17 digits: its value is 2^64 and
  the parser gives 0.
\<close>

theorem parseUintFromHex_overflow_counterexample:
  "validHex ''0x10000000000000000'' \<and>
   hexValue ''0x10000000000000000'' = 18446744073709551616 \<and>
   unat (parseUintFromHex ''0x10000000000000000'') = 0 \<and>
   unat (parseUintFromHex ''0x10000000000000000'') \<noteq> hexValue ''0x10000000000000000''"
proof -
  have d: "validHex ''0x10000000000000000''"
    by (simp add: validHex_def hexDigitsOf_def isHexDigit_def)
  have e: "hexValue ''0x10000000000000000'' = 18446744073709551616"
    by (simp add: hexValue_def hexDigitsOf_def hexDigitValue_def)
  show ?thesis
    using parseUintFromHex_valid [OF d] by (simp add: d e)
qed

section \<open>Decoding the sync status\<close>

text \<open>
  A body cannot decode in both forms unless it carries no result at all: a member that
  the boolean decoder and the structured decoder both accept is \<^verbatim>\<open>null\<close>.
\<close>

lemma decode_both:
  "unmarshal_bool j v = Inr v' \<Longrightarrow> unmarshal_SyncInfo j s = Inr s' \<Longrightarrow> v' = v"
  by (cases j) simp_all

lemma members_both:
  "unmarshal_Result_members unmarshal_bool ms v = Inr v' \<Longrightarrow>
   unmarshal_Result_members unmarshal_SyncInfo ms s = Inr s' \<Longrightarrow> v' = v"
proof (induction ms arbitrary: v s)
  case Nil
  then show ?case by simp
next
  case (Cons m ms)
  obtain k j where m: "m = (k, j)" by (cases m)
  show ?case
  proof (cases "findField [''result''] k")
    case None
    with Cons.prems m show ?thesis by (auto dest: Cons.IH)
  next
    case (Some f)
    from Cons.prems(1) m Some obtain v1 where
      b: "unmarshal_bool j v = Inr v1" "unmarshal_Result_members unmarshal_bool ms v1 = Inr v'"
      by (auto split: sum.splits)
    from Cons.prems(2) m Some obtain s1 where
      s: "unmarshal_SyncInfo j s = Inr s1" "unmarshal_Result_members unmarshal_SyncInfo ms s1 = Inr s'"
      by (auto split: sum.splits)
    from decode_both [OF b(1) s(1)] have "v1 = v" .
    with Cons.IH [OF b(2) s(2)] show ?thesis by simp
  qed
qed

lemma bool_true_not_structured:
  assumes "Unmarshal_JsonResultBool b = Inr True"
  shows "\<exists>e. Unmarshal_JsonResultSync b = Inl e"
proof (cases b)
  case Malformed
  then show ?thesis by (simp add: Unmarshal_JsonResultSync_def)
next
  case (Json j)
  show ?thesis
  proof (cases j)
    case (JObject ms)
    show ?thesis
    proof (cases "Unmarshal_JsonResultSync b")
      case (Inl e)
      then show ?thesis by blast
    next
      case (Inr si)
      with assms Json JObject have "True = False"
        by (auto simp: Unmarshal_JsonResultSync_def Unmarshal_JsonResultBool_def
            dest: members_both)
      then show ?thesis by simp
    qed
  qed (use assms Json in \<open>simp_all add: Unmarshal_JsonResultSync_def Unmarshal_JsonResultBool_def\<close>)
qed

lemma decodeSyncing_true:
  "Unmarshal_JsonResultBool b = Inr True \<Longrightarrow> decodeSyncing b = Inl AmbiguousSyncStatus"
  using bool_true_not_structured [of b] by (auto simp: decodeSyncing_def)

section \<open>The steps of isReady\<close>

lemma isReady_sync_error:
  "getSyncing net addr token timeout = Inl err \<Longrightarrow>
   isReady net clk thr addr token timeout tol bt = (Some err, bt, [Requested addr Eth_syncing])"
  by (simp add: isReady_def)

lemma isReady_lag:
  "getSyncing net addr token timeout = Inr (Some si) \<Longrightarrow> distance si > tol \<Longrightarrow>
   isReady net clk thr addr token timeout tol bt =
     (Some (SyncLag (distance si) tol), bt, Requested addr Eth_syncing # distance_log si)"
  by (simp add: isReady_def)

lemma isReady_block_events:
  "snd (snd (isReady_block net clk thr addr token timeout bt)) = [Requested addr Eth_getBlockByNumber]"
  by (simp add: isReady_block_def Let_def split: sum.splits option.splits)

lemma isReady_not_syncing:
  "getSyncing net addr token timeout = Inr None \<Longrightarrow>
   isReady net clk thr addr token timeout tol bt =
     (fst (isReady_block net clk thr addr token timeout bt),
      fst (snd (isReady_block net clk thr addr token timeout bt)),
      [Requested addr Eth_syncing, Requested addr Eth_getBlockByNumber])"
  using isReady_block_events [of net clk thr addr token timeout bt]
  by (auto simp: isReady_def split: prod.splits)

lemma isReady_within:
  "getSyncing net addr token timeout = Inr (Some si) \<Longrightarrow> \<not> distance si > tol \<Longrightarrow>
   isReady net clk thr addr token timeout tol bt =
     (fst (isReady_block net clk thr addr token timeout bt),
      fst (snd (isReady_block net clk thr addr token timeout bt)),
      Requested addr Eth_syncing # distance_log si @
      (if distance si > 0 then [LogWithinTolerance (distance si) tol] else []) @
      [Requested addr Eth_getBlockByNumber])"
  using isReady_block_events [of net clk thr addr token timeout bt]
  by (auto simp: isReady_def Let_def split: prod.splits)

lemma isReady_continues:
  assumes "getSyncing net addr token timeout = Inr s" "sync_passes s tol"
  shows "fst (isReady net clk thr addr token timeout tol bt) =
           fst (isReady_block net clk thr addr token timeout bt)"
    and "fst (snd (isReady net clk thr addr token timeout tol bt)) =
           fst (snd (isReady_block net clk thr addr token timeout bt))"
    and "Requested addr Eth_getBlockByNumber \<in> set (snd (snd (isReady net clk thr addr token timeout tol bt)))"
proof -
  show "fst (isReady net clk thr addr token timeout tol bt) =
           fst (isReady_block net clk thr addr token timeout bt)"
  proof (cases s)
    case None
    with assms(1) show ?thesis by (simp add: isReady_not_syncing)
  next
    case (Some si)
    with assms have "\<not> distance si > tol" by (simp add: sync_passes_def not_less)
    with assms(1) Some show ?thesis by (simp add: isReady_within)
  qed
  show "fst (snd (isReady net clk thr addr token timeout tol bt)) =
           fst (snd (isReady_block net clk thr addr token timeout bt))"
  proof (cases s)
    case None
    with assms(1) show ?thesis by (simp add: isReady_not_syncing)
  next
    case (Some si)
    with assms have "\<not> distance si > tol" by (simp add: sync_passes_def not_less)
    with assms(1) Some show ?thesis by (simp add: isReady_within)
  qed
  show "Requested addr Eth_getBlockByNumber \<in> set (snd (snd (isReady net clk thr addr token timeout tol bt)))"
  proof (cases s)
    case None
    with assms(1) show ?thesis by (simp add: isReady_not_syncing)
  next
    case (Some si)
    with assms have "\<not> distance si > tol" by (simp add: sync_passes_def not_less)
    with assms(1) Some show ?thesis by (simp add: isReady_within)
  qed
qed

lemma isReady_block_number:
  assumes "getLatestBlock net addr token timeout = Inr b" "Block_number b = Inr n"
  shows "fst (snd (isReady_block net clk thr addr token timeout bt)) = AddBlock n (nowAddBlock clk) bt"
    and "fst (isReady_block net clk thr addr token timeout bt) =
      (case checkAge (nowCheckAge clk) b of
         Some e \<Rightarrow> Some e
       | None \<Rightarrow> HealthCheck thr (nowHealthCheck clk) (AddBlock n (nowAddBlock clk) bt))"
  using assms by (simp_all add: isReady_block_def Let_def split: option.splits)

lemma isReady_block_number_error:
  assumes "getLatestBlock net addr token timeout = Inr b" "Block_number b = Inl e"
  shows "isReady_block net clk thr addr token timeout bt = (Some e, bt, [Requested addr Eth_getBlockByNumber])"
  using assms by (simp add: isReady_block_def)

lemma request_node:
  "request (node sb bb) addr token timeout Eth_syncing = Inr sb"
  "request (node sb bb) addr token timeout Eth_getBlockByNumber = Inr bb"
  by (simp_all add: request_def node_def)

text \<open>
  C1: for a structured sync response, \<open>isReady\<close> computes the clamped distance; when it
  exceeds the tolerance the call fails with \<open>SyncLag\<close> carrying the distance and the
  tolerance (the tracker untouched, no block request sent); when it is positive and
  within the tolerance the call logs the condition, sends the block request and returns
  what the rest of the evaluation returns. Scenario A: current block 0x5a, highest block
  0x64 and tolerance 5 give \<open>SyncLag 10 5\<close>.
\<close>

theorem isReady_sync_lag:
  "(request net addr token timeout Eth_syncing = Inr b \<and> Unmarshal_JsonResultSync b = Inr si \<longrightarrow>
      distance si = (if highestBlock si < currentBlock si then 0 else highestBlock si - currentBlock si)) \<and>
   (request net addr token timeout Eth_syncing = Inr b \<and> Unmarshal_JsonResultSync b = Inr si \<and>
    distance si > tol \<longrightarrow>
      isReady net clk thr addr token timeout tol bt =
        (Some (SyncLag (distance si) tol), bt, Requested addr Eth_syncing # distance_log si)) \<and>
   (request net addr token timeout Eth_syncing = Inr b \<and> Unmarshal_JsonResultSync b = Inr si \<and>
    0 < distance si \<and> distance si \<le> tol \<longrightarrow>
      isReady net clk thr addr token timeout tol bt =
        (fst (isReady_block net clk thr addr token timeout bt),
         fst (snd (isReady_block net clk thr addr token timeout bt)),
         Requested addr Eth_syncing # distance_log si @
         [LogWithinTolerance (distance si) tol, Requested addr Eth_getBlockByNumber])) \<and>
   isReady (node (rpc_result (sync_object ''0x5a'' ''0x64'')) bb) clk thr addr token timeout 5 bt =
     (Some (SyncLag 10 5), bt, [Requested addr Eth_syncing])"
proof -
  have g: "request net addr token timeout Eth_syncing = Inr b \<and> Unmarshal_JsonResultSync b = Inr si
      \<Longrightarrow> getSyncing net addr token timeout = Inr (Some si)" for net b si
    by (simp add: getSyncing_def decodeSyncing_def)
  have lag: "request net addr token timeout Eth_syncing = Inr b \<and> Unmarshal_JsonResultSync b = Inr si \<and>
    distance si > tol \<longrightarrow>
      isReady net clk thr addr token timeout tol bt =
        (Some (SyncLag (distance si) tol), bt, Requested addr Eth_syncing # distance_log si)" for net b si tol
    using g [of net b si] by (auto intro: isReady_lag)
  have within: "request net addr token timeout Eth_syncing = Inr b \<and> Unmarshal_JsonResultSync b = Inr si \<and>
    0 < distance si \<and> distance si \<le> tol \<longrightarrow>
      isReady net clk thr addr token timeout tol bt =
        (fst (isReady_block net clk thr addr token timeout bt),
         fst (snd (isReady_block net clk thr addr token timeout bt)),
         Requested addr Eth_syncing # distance_log si @
         [LogWithinTolerance (distance si) tol, Requested addr Eth_getBlockByNumber])"
  proof
    assume h: "request net addr token timeout Eth_syncing = Inr b \<and> Unmarshal_JsonResultSync b = Inr si \<and>
      0 < distance si \<and> distance si \<le> tol"
    then have nl: "\<not> distance si > tol" by (simp add: not_less)
    from h g [of net b si] have gs: "getSyncing net addr token timeout = Inr (Some si)" by simp
    from isReady_within [OF gs nl, of clk thr bt] h
    show "isReady net clk thr addr token timeout tol bt =
        (fst (isReady_block net clk thr addr token timeout bt),
         fst (snd (isReady_block net clk thr addr token timeout bt)),
         Requested addr Eth_syncing # distance_log si @
         [LogWithinTolerance (distance si) tol, Requested addr Eth_getBlockByNumber])"
      by simp
  qed
  have s: "Unmarshal_JsonResultSync (rpc_result (sync_object ''0x5a'' ''0x64'')) =
     Inr \<lparr>CurrentBlockHex = ''0x5a'', HighestBlockHex = ''0x64''\<rparr>" by code_simp
  have d: "distance \<lparr>CurrentBlockHex = ''0x5a'', HighestBlockHex = ''0x64''\<rparr> = 10" by code_simp
  have l: "distance_log \<lparr>CurrentBlockHex = ''0x5a'', HighestBlockHex = ''0x64''\<rparr> = []" by code_simp
  have c: "(5 :: u64) < 10" by code_simp
  have a: "isReady (node (rpc_result (sync_object ''0x5a'' ''0x64'')) bb) clk thr addr token timeout 5 bt =
     (Some (SyncLag 10 5), bt, [Requested addr Eth_syncing])"
    using lag [of "node (rpc_result (sync_object ''0x5a'' ''0x64'')) bb"
        "rpc_result (sync_object ''0x5a'' ''0x64'')"
        "\<lparr>CurrentBlockHex = ''0x5a'', HighestBlockHex = ''0x64''\<rparr>" 5]
    by (simp add: request_node s d l c)
  have dd: "distance si = (if highestBlock si < currentBlock si then 0 else highestBlock si - currentBlock si)"
    by (simp add: distance_def)
  show ?thesis
    using lag [of net b si tol] within a dd by blast
qed

theorem isReady_sync_lag_witness:
  "request (node (rpc_result (sync_object ''0x5a'' ''0x64'')) (rpc_result (block_object ''0x64'' ''0x3e8'')))
     ''n'' [] 5 Eth_syncing = Inr (rpc_result (sync_object ''0x5a'' ''0x64'')) \<and>
   Unmarshal_JsonResultSync (rpc_result (sync_object ''0x5a'' ''0x64'')) =
     Inr \<lparr>CurrentBlockHex = ''0x5a'', HighestBlockHex = ''0x64''\<rparr> \<and>
   distance \<lparr>CurrentBlockHex = ''0x5a'', HighestBlockHex = ''0x64''\<rparr> = 10 \<and>
   (5 :: u64) < 10 \<and>
   isReady (node (rpc_result (sync_object ''0x5a'' ''0x64'')) (rpc_result (block_object ''0x64'' ''0x3e8'')))
     (clock_at (1000 * Second)) (60 * Second) ''n'' [] 5 5 (newBlockTrack 0) =
     (Some (SyncLag 10 5), newBlockTrack 0, [Requested ''n'' Eth_syncing]) \<and>
   (0 :: u64) < 10 \<and> (10 :: u64) \<le> 20 \<and>
   isReady (node (rpc_result (sync_object ''0x5a'' ''0x64'')) (rpc_result (block_object ''0x64'' ''0x3e8'')))
     (clock_at (1000 * Second)) (60 * Second) ''n'' [] 5 20 (newBlockTrack 0) =
     (None, \<lparr>lastObservedNumber = Some 100, lastAdvanceTime = 1000 * Second\<rparr>,
      [Requested ''n'' Eth_syncing, LogWithinTolerance 10 20, Requested ''n'' Eth_getBlockByNumber])"
proof -
  let ?net = "node (rpc_result (sync_object ''0x5a'' ''0x64'')) (rpc_result (block_object ''0x64'' ''0x3e8''))"
  let ?si = "\<lparr>CurrentBlockHex = ''0x5a'', HighestBlockHex = ''0x64''\<rparr>"
  have s: "Unmarshal_JsonResultSync (rpc_result (sync_object ''0x5a'' ''0x64'')) = Inr ?si" by code_simp
  have d: "distance ?si = 10" by code_simp
  have l: "distance_log ?si = []" by code_simp
  have c: "(5 :: u64) < 10" "(0 :: u64) < 10" "(10 :: u64) \<le> 20" by code_simp+
  have b: "isReady_block ?net (clock_at (1000 * Second)) (60 * Second) ''n'' [] 5 (newBlockTrack 0) =
     (None, \<lparr>lastObservedNumber = Some 100, lastAdvanceTime = 1000 * Second\<rparr>,
      [Requested ''n'' Eth_getBlockByNumber])" by code_simp
  show ?thesis
    using
      isReady_sync_lag [of ?net "''n''" "[]" 5 "rpc_result (sync_object ''0x5a'' ''0x64'')" ?si 5
        "clock_at (1000 * Second)" "60 * Second" "newBlockTrack 0"]
      isReady_sync_lag [of ?net "''n''" "[]" 5 "rpc_result (sync_object ''0x5a'' ''0x64'')" ?si 20
        "clock_at (1000 * Second)" "60 * Second" "newBlockTrack 0"]
    by (simp add: request_node s d l c b)
qed

text \<open>
  C2: a response that decodes as the boolean true makes \<open>isReady\<close> fail with
  \<open>AmbiguousSyncStatus\<close> (such a body never decodes in the structured form); one that
  fails the structured decoding and decodes as the boolean false gives no sync
  information and no error; the structured form is tried first and wins when it
  decodes; a body that decodes in neither form is a protocol error.
\<close>

theorem getSyncing_boolean:
  "(request net addr token timeout Eth_syncing = Inr b \<and> Unmarshal_JsonResultBool b = Inr True \<longrightarrow>
      isReady net clk thr addr token timeout tol bt =
        (Some AmbiguousSyncStatus, bt, [Requested addr Eth_syncing])) \<and>
   (request net addr token timeout Eth_syncing = Inr b \<and> Unmarshal_JsonResultSync b = Inl e \<and>
    Unmarshal_JsonResultBool b = Inr False \<longrightarrow>
      getSyncing net addr token timeout = Inr None) \<and>
   (request net addr token timeout Eth_syncing = Inr b \<and> Unmarshal_JsonResultSync b = Inr si \<longrightarrow>
      getSyncing net addr token timeout = Inr (Some si)) \<and>
   (request net addr token timeout Eth_syncing = Inr b \<and> Unmarshal_JsonResultSync b = Inl e \<and>
    Unmarshal_JsonResultBool b = Inl e' \<longrightarrow>
      getSyncing net addr token timeout = Inl (ProtocolError e'))"
proof -
  have t: "request net addr token timeout Eth_syncing = Inr b \<and> Unmarshal_JsonResultBool b = Inr True \<longrightarrow>
      isReady net clk thr addr token timeout tol bt =
        (Some AmbiguousSyncStatus, bt, [Requested addr Eth_syncing])"
  proof
    assume h: "request net addr token timeout Eth_syncing = Inr b \<and> Unmarshal_JsonResultBool b = Inr True"
    then have "getSyncing net addr token timeout = Inl AmbiguousSyncStatus"
      by (simp add: getSyncing_def decodeSyncing_true)
    then show "isReady net clk thr addr token timeout tol bt =
        (Some AmbiguousSyncStatus, bt, [Requested addr Eth_syncing])"
      by (rule isReady_sync_error)
  qed
  show ?thesis
    using t by (simp add: getSyncing_def decodeSyncing_def)
qed

theorem getSyncing_boolean_witness:
  "request (node (rpc_result (JBool True)) Malformed) ''n'' [] 5 Eth_syncing = Inr (rpc_result (JBool True)) \<and>
   Unmarshal_JsonResultBool (rpc_result (JBool True)) = Inr True \<and>
   isReady (node (rpc_result (JBool True)) Malformed) (clock_at 0) 60 ''n'' [] 5 0 (newBlockTrack 0) =
     (Some AmbiguousSyncStatus, newBlockTrack 0, [Requested ''n'' Eth_syncing]) \<and>
   request (node (rpc_result (JBool False)) Malformed) ''n'' [] 5 Eth_syncing = Inr (rpc_result (JBool False)) \<and>
   Unmarshal_JsonResultSync (rpc_result (JBool False)) = Inl UnmarshalTypeError \<and>
   Unmarshal_JsonResultBool (rpc_result (JBool False)) = Inr False \<and>
   getSyncing (node (rpc_result (JBool False)) Malformed) ''n'' [] 5 = Inr None \<and>
   request (node (rpc_result (sync_object ''0x5a'' ''0x64'')) Malformed) ''n'' [] 5 Eth_syncing =
     Inr (rpc_result (sync_object ''0x5a'' ''0x64'')) \<and>
   Unmarshal_JsonResultSync (rpc_result (sync_object ''0x5a'' ''0x64'')) =
     Inr \<lparr>CurrentBlockHex = ''0x5a'', HighestBlockHex = ''0x64''\<rparr> \<and>
   getSyncing (node (rpc_result (sync_object ''0x5a'' ''0x64'')) Malformed) ''n'' [] 5 =
     Inr (Some \<lparr>CurrentBlockHex = ''0x5a'', HighestBlockHex = ''0x64''\<rparr>) \<and>
   request (node (rpc_result (JNumber ''1'')) Malformed) ''n'' [] 5 Eth_syncing = Inr (rpc_result (JNumber ''1'')) \<and>
   Unmarshal_JsonResultSync (rpc_result (JNumber ''1'')) = Inl UnmarshalTypeError \<and>
   Unmarshal_JsonResultBool (rpc_result (JNumber ''1'')) = Inl UnmarshalTypeError \<and>
   getSyncing (node (rpc_result (JNumber ''1'')) Malformed) ''n'' [] 5 = Inl (ProtocolError UnmarshalTypeError)"
proof -
  have t: "Unmarshal_JsonResultBool (rpc_result (JBool True)) = Inr True" by code_simp
  have f: "Unmarshal_JsonResultSync (rpc_result (JBool False)) = Inl UnmarshalTypeError"
    "Unmarshal_JsonResultBool (rpc_result (JBool False)) = Inr False" by code_simp+
  have s: "Unmarshal_JsonResultSync (rpc_result (sync_object ''0x5a'' ''0x64'')) =
     Inr \<lparr>CurrentBlockHex = ''0x5a'', HighestBlockHex = ''0x64''\<rparr>" by code_simp
  have n: "Unmarshal_JsonResultSync (rpc_result (JNumber ''1'')) = Inl UnmarshalTypeError"
    "Unmarshal_JsonResultBool (rpc_result (JNumber ''1'')) = Inl UnmarshalTypeError" by code_simp+
  show ?thesis
    using
      getSyncing_boolean [of "node (rpc_result (JBool True)) Malformed" "''n''" "[]" 5
        "rpc_result (JBool True)" "clock_at 0" 60 0 "newBlockTrack 0"]
      getSyncing_boolean [of "node (rpc_result (JBool False)) Malformed" "''n''" "[]" 5
        "rpc_result (JBool False)" _ _ _ _ UnmarshalTypeError]
      getSyncing_boolean [of "node (rpc_result (sync_object ''0x5a'' ''0x64'')) Malformed" "''n''" "[]" 5
        "rpc_result (sync_object ''0x5a'' ''0x64'')" _ _ _ _ _
        "\<lparr>CurrentBlockHex = ''0x5a'', HighestBlockHex = ''0x64''\<rparr>"]
      getSyncing_boolean [of "node (rpc_result (JNumber ''1'')) Malformed" "''n''" "[]" 5
        "rpc_result (JNumber ''1'')" _ _ _ _ UnmarshalTypeError _ UnmarshalTypeError]
    by (simp add: request_node t f s n)
qed

section \<open>The strict decoders and the freshness check\<close>

lemma TrimLeft_only_cutset: "set s \<subseteq> set cutset \<Longrightarrow> TrimLeft s cutset = []"
  by (auto simp: TrimLeft_def)

lemma Block_number_zero:
  "set (Number b) \<subseteq> {CHR ''0'', CHR ''x''} \<Longrightarrow>
   Block_number b = Inl (BlockDecodeError FieldNumber ErrSyntax)"
  using TrimLeft_only_cutset [of "Number b" "''0x''"]
  by (auto simp: Block_number_def ParseUint_def)

lemma Block_time_zero:
  "set (Timestamp b) \<subseteq> {CHR ''0'', CHR ''x''} \<Longrightarrow>
   Block_time b = Inl (BlockDecodeError FieldTimestamp ErrSyntax)"
  using TrimLeft_only_cutset [of "Timestamp b" "''0x''"]
  by (auto simp: Block_time_def ParseInt_def)

lemma distance_log_no_request: "Requested a p \<notin> set (distance_log si)"
  by (simp add: distance_log_def)

lemma Block_number_error:
  "Block_number b = Inl e \<Longrightarrow> \<exists>ne. e = BlockDecodeError FieldNumber ne"
  by (auto simp: Block_number_def split: prod.splits option.splits)

lemma checkAge_time_error:
  "Block_time b = Inl e \<Longrightarrow> checkAge now b = Some e"
  by (simp add: checkAge_def)

lemma clock_at_sel:
  "nowAddBlock (clock_at t) = t" "nowCheckAge (clock_at t) = t" "nowHealthCheck (clock_at t) = t"
  by (simp_all add: clock_at_def)

lemma time_Since_large:
  "now - created > 300 * Second \<Longrightarrow> time_Since now created > 300 * Second"
  by (simp add: time_Since_def Let_def Second_def minDuration_def maxDuration_def)

lemma time_Since_exact:
  "now - created > 300 * Second \<Longrightarrow> now - created \<le> maxDuration \<Longrightarrow>
   time_Since now created = now - created"
  by (simp add: time_Since_def Let_def Second_def minDuration_def maxDuration_def)

lemma time_Since_small:
  "now - created \<le> 300 * Second \<Longrightarrow> time_Since now created \<le> 300 * Second"
  by (simp add: time_Since_def Let_def Second_def minDuration_def maxDuration_def)

lemma Truncate_Second:
  assumes "d > 300 * Second"
  shows "300 * Second \<le> Truncate d Second" "Truncate d Second \<le> d" "d < Truncate d Second + Second"
proof -
  have p: "0 < d" using assms by (simp add: Second_def)
  then have t: "Truncate d Second = d - d mod 1000000000"
    by (simp add: Truncate_def Second_def)
  have "d - d mod 1000000000 = 1000000000 * (d div 1000000000)"
    by (simp add: minus_mod_eq_mult_div)
  moreover have "300 \<le> d div 1000000000"
    using assms by (simp add: Second_def)
  ultimately show "300 * Second \<le> Truncate d Second"
    using t by (simp add: Second_def)
  show "Truncate d Second \<le> d" using t by simp
  have "d mod 1000000000 < 1000000000" by simp
  then show "d < Truncate d Second + Second" using t by (simp add: Second_def)
qed

text \<open>
  C7: when the decoded timestamp of the latest block is more than 300 seconds before the
  clock reading, \<open>checkAge\<close> fails with \<open>StaleBlock\<close> carrying the age truncated to whole
  seconds (at least 300 seconds, and within one second of the true age whenever a
  duration can hold it), and so does \<open>isReady\<close> once the earlier steps have passed; when
  it is at most 300 seconds before, the check passes. A timestamp 400 seconds in the
  past gives an age of 400 seconds.
\<close>

theorem checkAge_stale:
  "(Block_time b = Inr created \<and> now - created > 300 * Second \<longrightarrow>
      checkAge now b = Some (StaleBlock (Truncate (time_Since now created) Second)) \<and>
      300 * Second \<le> Truncate (time_Since now created) Second \<and>
      (now - created \<le> maxDuration \<longrightarrow>
         Truncate (time_Since now created) Second \<le> now - created \<and>
         now - created < Truncate (time_Since now created) Second + Second)) \<and>
   (Block_time b = Inr created \<and> now - created \<le> 300 * Second \<longrightarrow> checkAge now b = None) \<and>
   (getSyncing net addr token timeout = Inr s \<and> sync_passes s tol \<and>
    getLatestBlock net addr token timeout = Inr b \<and> Block_number b = Inr n \<and>
    Block_time b = Inr created \<and> nowCheckAge clk - created > 300 * Second \<longrightarrow>
      fst (isReady net clk thr addr token timeout tol bt) =
        Some (StaleBlock (Truncate (time_Since (nowCheckAge clk) created) Second)))"
proof -
  have stale: "checkAge now b = Some (StaleBlock (Truncate (time_Since now created) Second))"
    if "Block_time b = Inr created" "now - created > 300 * Second" for now
    using that time_Since_large [of now created] by (simp add: checkAge_def Let_def)
  have fresh: "checkAge now b = None"
    if "Block_time b = Inr created" "now - created \<le> 300 * Second"
    using that time_Since_small [of now created] by (simp add: checkAge_def Let_def)
  have tr: "300 * Second \<le> Truncate (time_Since now created) Second"
    if "now - created > 300 * Second"
    using Truncate_Second(1) [OF time_Since_large [OF that]] .
  have ex: "Truncate (time_Since now created) Second \<le> now - created \<and>
         now - created < Truncate (time_Since now created) Second + Second"
    if "now - created > 300 * Second" "now - created \<le> maxDuration"
    using Truncate_Second(2,3) [OF time_Since_large [OF that(1)]] time_Since_exact [OF that]
    by simp
  have rdy: "fst (isReady net clk thr addr token timeout tol bt) =
        Some (StaleBlock (Truncate (time_Since (nowCheckAge clk) created) Second))"
    if "getSyncing net addr token timeout = Inr s" "sync_passes s tol"
      "getLatestBlock net addr token timeout = Inr b" "Block_number b = Inr n"
      "Block_time b = Inr created" "nowCheckAge clk - created > 300 * Second"
    using that isReady_block_number(2) [of net addr token timeout b n clk thr bt]
      stale [of "nowCheckAge clk"]
    by (simp add: isReady_continues(1))
  show ?thesis using stale fresh tr ex rdy by blast
qed

theorem checkAge_stale_witness:
  "Block_time \<lparr>Timestamp = ''0x6553f100'', Number = ''0x10''\<rparr> = Inr (1700000000 * Second) \<and>
   (1700000400 * Second + 5) - 1700000000 * Second > 300 * Second \<and>
   (1700000400 * Second + 5) - 1700000000 * Second \<le> maxDuration \<and>
   checkAge (1700000400 * Second + 5) \<lparr>Timestamp = ''0x6553f100'', Number = ''0x10''\<rparr> =
     Some (StaleBlock (400 * Second)) \<and>
   1700000300 * Second - 1700000000 * Second \<le> 300 * Second \<and>
   checkAge (1700000300 * Second) \<lparr>Timestamp = ''0x6553f100'', Number = ''0x10''\<rparr> = None \<and>
   getSyncing (node (rpc_result (JBool False)) (rpc_result (block_object ''0x10'' ''0x6553f100''))) ''n'' [] 5 = Inr None \<and>
   sync_passes None 0 \<and>
   getLatestBlock (node (rpc_result (JBool False)) (rpc_result (block_object ''0x10'' ''0x6553f100''))) ''n'' [] 5 =
     Inr \<lparr>Timestamp = ''0x6553f100'', Number = ''0x10''\<rparr> \<and>
   Block_number \<lparr>Timestamp = ''0x6553f100'', Number = ''0x10''\<rparr> = Inr 16 \<and>
   fst (isReady (node (rpc_result (JBool False)) (rpc_result (block_object ''0x10'' ''0x6553f100'')))
     (clock_at (1700000400 * Second + 5)) (60 * Second) ''n'' [] 5 0 (newBlockTrack 0)) =
     Some (StaleBlock (400 * Second))"
proof -
  let ?n = "node (rpc_result (JBool False)) (rpc_result (block_object ''0x10'' ''0x6553f100''))"
  let ?b = "\<lparr>Timestamp = ''0x6553f100'', Number = ''0x10''\<rparr>"
  have bt: "Block_time ?b = Inr (1700000000 * Second)" by code_simp
  have g: "getSyncing ?n ''n'' [] 5 = Inr None" by code_simp
  have p: "sync_passes None 0" by (simp add: sync_passes_def)
  have l: "getLatestBlock ?n ''n'' [] 5 = Inr ?b" by code_simp
  have n: "Block_number ?b = Inr 16" by code_simp
  have s: "time_Since (1700000400 * Second + 5) (1700000000 * Second) = 400 * Second + 5"
    by (simp add: time_Since_def Second_def minDuration_def maxDuration_def)
  have t: "Truncate (400 * Second + 5) Second = 400 * Second"
    by (simp add: Truncate_def Second_def)
  show ?thesis
    using
      checkAge_stale [of ?b "1700000000 * Second" "1700000400 * Second + 5"]
      checkAge_stale [of ?b "1700000000 * Second" "1700000300 * Second" ?n "''n''" "[]" 5 None 0 16
        "clock_at (1700000400 * Second + 5)" "60 * Second" "newBlockTrack 0"]
    by (simp add: bt g p l n s t clock_at_sel) (simp add: Second_def maxDuration_def)
qed

text \<open>
  C8: when the sync step fails (an error of \<open>getSyncing\<close>, or a distance beyond the
  tolerance) \<open>isReady\<close> returns at once: the tracker is unchanged and no block request is
  sent. When the sync step passes and the block number parses, the tracker has observed
  the number whatever the later checks say: the freshness check runs after the
  observation, the liveness verdict is taken on the updated tracker, and a call that
  fails with \<open>StaleBlock\<close> has recorded the observation.
\<close>

theorem isReady_order:
  "(getSyncing net addr token timeout = Inl err \<longrightarrow>
      isReady net clk thr addr token timeout tol bt = (Some err, bt, [Requested addr Eth_syncing])) \<and>
   (getSyncing net addr token timeout = Inr (Some si) \<and> distance si > tol \<longrightarrow>
      fst (isReady net clk thr addr token timeout tol bt) = Some (SyncLag (distance si) tol) \<and>
      fst (snd (isReady net clk thr addr token timeout tol bt)) = bt \<and>
      Requested addr Eth_getBlockByNumber \<notin> set (snd (snd (isReady net clk thr addr token timeout tol bt)))) \<and>
   (getSyncing net addr token timeout = Inr s \<and> sync_passes s tol \<and>
    getLatestBlock net addr token timeout = Inr b \<and> Block_number b = Inr n \<longrightarrow>
      fst (snd (isReady net clk thr addr token timeout tol bt)) = AddBlock n (nowAddBlock clk) bt \<and>
      fst (isReady net clk thr addr token timeout tol bt) =
        (case checkAge (nowCheckAge clk) b of
           Some e \<Rightarrow> Some e
         | None \<Rightarrow> HealthCheck thr (nowHealthCheck clk) (AddBlock n (nowAddBlock clk) bt))) \<and>
   (getSyncing net addr token timeout = Inr s \<and> sync_passes s tol \<and>
    getLatestBlock net addr token timeout = Inr b \<and> Block_number b = Inr n \<and>
    checkAge (nowCheckAge clk) b = Some (StaleBlock age) \<longrightarrow>
      fst (isReady net clk thr addr token timeout tol bt) = Some (StaleBlock age) \<and>
      fst (snd (isReady net clk thr addr token timeout tol bt)) = AddBlock n (nowAddBlock clk) bt)"
proof -
  have a: "getSyncing net addr token timeout = Inl err \<longrightarrow>
      isReady net clk thr addr token timeout tol bt = (Some err, bt, [Requested addr Eth_syncing])"
    by (simp add: isReady_sync_error)
  have b: "getSyncing net addr token timeout = Inr (Some si) \<and> distance si > tol \<longrightarrow>
      fst (isReady net clk thr addr token timeout tol bt) = Some (SyncLag (distance si) tol) \<and>
      fst (snd (isReady net clk thr addr token timeout tol bt)) = bt \<and>
      Requested addr Eth_getBlockByNumber \<notin> set (snd (snd (isReady net clk thr addr token timeout tol bt)))"
    by (simp add: isReady_lag distance_log_no_request)
  have c: "getSyncing net addr token timeout = Inr s \<and> sync_passes s tol \<and>
    getLatestBlock net addr token timeout = Inr b \<and> Block_number b = Inr n \<longrightarrow>
      fst (snd (isReady net clk thr addr token timeout tol bt)) = AddBlock n (nowAddBlock clk) bt \<and>
      fst (isReady net clk thr addr token timeout tol bt) =
        (case checkAge (nowCheckAge clk) b of
           Some e \<Rightarrow> Some e
         | None \<Rightarrow> HealthCheck thr (nowHealthCheck clk) (AddBlock n (nowAddBlock clk) bt))"
    by (simp add: isReady_continues isReady_block_number)
  from c have d: "getSyncing net addr token timeout = Inr s \<and> sync_passes s tol \<and>
    getLatestBlock net addr token timeout = Inr b \<and> Block_number b = Inr n \<and>
    checkAge (nowCheckAge clk) b = Some (StaleBlock age) \<longrightarrow>
      fst (isReady net clk thr addr token timeout tol bt) = Some (StaleBlock age) \<and>
      fst (snd (isReady net clk thr addr token timeout tol bt)) = AddBlock n (nowAddBlock clk) bt"
    by simp
  from a b c d show ?thesis by blast
qed

theorem isReady_order_witness:
  "getSyncing (failing_node 500) ''n'' [] 5 = Inl (TransportError (StatusCodeError 500)) \<and>
   isReady (failing_node 500) (clock_at (1400 * Second)) (60 * Second) ''n'' [] 5 0 (newBlockTrack 0) =
     (Some (TransportError (StatusCodeError 500)), newBlockTrack 0, [Requested ''n'' Eth_syncing]) \<and>
   getSyncing (node (rpc_result (sync_object ''0x5a'' ''0x64'')) (rpc_result (block_object ''0x10'' ''0x3e8''))) ''n'' [] 5 =
     Inr (Some \<lparr>CurrentBlockHex = ''0x5a'', HighestBlockHex = ''0x64''\<rparr>) \<and>
   distance \<lparr>CurrentBlockHex = ''0x5a'', HighestBlockHex = ''0x64''\<rparr> > 5 \<and>
   isReady (node (rpc_result (sync_object ''0x5a'' ''0x64'')) (rpc_result (block_object ''0x10'' ''0x3e8'')))
     (clock_at (1400 * Second)) (60 * Second) ''n'' [] 5 5 (newBlockTrack 0) =
     (Some (SyncLag 10 5), newBlockTrack 0, [Requested ''n'' Eth_syncing]) \<and>
   getSyncing (node (rpc_result (JBool False)) (rpc_result (block_object ''0x10'' ''0x3e8''))) ''n'' [] 5 = Inr None \<and>
   sync_passes None 0 \<and>
   getLatestBlock (node (rpc_result (JBool False)) (rpc_result (block_object ''0x10'' ''0x3e8''))) ''n'' [] 5 =
     Inr \<lparr>Timestamp = ''0x3e8'', Number = ''0x10''\<rparr> \<and>
   Block_number \<lparr>Timestamp = ''0x3e8'', Number = ''0x10''\<rparr> = Inr 16 \<and>
   checkAge (1400 * Second) \<lparr>Timestamp = ''0x3e8'', Number = ''0x10''\<rparr> = Some (StaleBlock (400 * Second)) \<and>
   fst (isReady (node (rpc_result (JBool False)) (rpc_result (block_object ''0x10'' ''0x3e8'')))
     (clock_at (1400 * Second)) (60 * Second) ''n'' [] 5 0 (newBlockTrack 0)) = Some (StaleBlock (400 * Second)) \<and>
   fst (snd (isReady (node (rpc_result (JBool False)) (rpc_result (block_object ''0x10'' ''0x3e8'')))
     (clock_at (1400 * Second)) (60 * Second) ''n'' [] 5 0 (newBlockTrack 0))) =
     \<lparr>lastObservedNumber = Some 16, lastAdvanceTime = 1400 * Second\<rparr>"
proof -
  let ?n2 = "node (rpc_result (sync_object ''0x5a'' ''0x64'')) (rpc_result (block_object ''0x10'' ''0x3e8''))"
  let ?n3 = "node (rpc_result (JBool False)) (rpc_result (block_object ''0x10'' ''0x3e8''))"
  let ?si = "\<lparr>CurrentBlockHex = ''0x5a'', HighestBlockHex = ''0x64''\<rparr>"
  let ?b = "\<lparr>Timestamp = ''0x3e8'', Number = ''0x10''\<rparr>"
  have g1: "getSyncing (failing_node 500) ''n'' [] 5 = Inl (TransportError (StatusCodeError 500))"
    by code_simp
  have g2: "getSyncing ?n2 ''n'' [] 5 = Inr (Some ?si)" by code_simp
  have d: "distance ?si = 10" by code_simp
  have l: "distance_log ?si = []" by code_simp
  have c: "(5 :: u64) < 10" by code_simp
  have g3: "getSyncing ?n3 ''n'' [] 5 = Inr None" by code_simp
  have p: "sync_passes None 0" by (simp add: sync_passes_def)
  have l3: "getLatestBlock ?n3 ''n'' [] 5 = Inr ?b" by code_simp
  have n: "Block_number ?b = Inr 16" by code_simp
  have a: "checkAge (1400 * Second) ?b = Some (StaleBlock (400 * Second))" by code_simp
  have t: "AddBlock 16 (1400 * Second) (newBlockTrack 0) =
      \<lparr>lastObservedNumber = Some 16, lastAdvanceTime = 1400 * Second\<rparr>"
    by (simp add: AddBlock_def newBlockTrack_def)
  have i2: "isReady ?n2 (clock_at (1400 * Second)) (60 * Second) ''n'' [] 5 5 (newBlockTrack 0) =
     (Some (SyncLag 10 5), newBlockTrack 0, [Requested ''n'' Eth_syncing])"
    using isReady_lag [OF g2, of 5] by (simp add: d l c)
  show ?thesis
    using
      isReady_order [of "failing_node 500" "''n''" "[]" 5 "TransportError (StatusCodeError 500)"
        "clock_at (1400 * Second)" "60 * Second" 0 "newBlockTrack 0"]
      isReady_order [of ?n3 "''n''" "[]" 5 _ "clock_at (1400 * Second)" "60 * Second" 0
        "newBlockTrack 0" _ None ?b 16 "400 * Second"]
    by (simp add: g1 g2 d c g3 p l3 n a t i2 clock_at_sel)
qed

text \<open>
  C10: the strict decoders trim with the cutset \<open>0x\<close>, so a number or timestamp made only
  of the characters \<open>0\<close> and \<open>x\<close> (such as \<open>0x0\<close> and \<open>0x00\<close>) leaves the empty string, the
  decoder returns a syntax error and \<open>isReady\<close> fails on such a block: with a block
  decode error once the sync step has passed, with the error of the sync step otherwise.
\<close>

theorem strict_decoders_reject_zero:
  "(set (Number b) \<subseteq> {CHR ''0'', CHR ''x''} \<longrightarrow>
      Block_number b = Inl (BlockDecodeError FieldNumber ErrSyntax)) \<and>
   (set (Timestamp b) \<subseteq> {CHR ''0'', CHR ''x''} \<longrightarrow>
      Block_time b = Inl (BlockDecodeError FieldTimestamp ErrSyntax)) \<and>
   (getSyncing net addr token timeout = Inr s \<and> sync_passes s tol \<and>
    getLatestBlock net addr token timeout = Inr b \<and> set (Number b) \<subseteq> {CHR ''0'', CHR ''x''} \<longrightarrow>
      fst (isReady net clk thr addr token timeout tol bt) =
        Some (BlockDecodeError FieldNumber ErrSyntax)) \<and>
   (getSyncing net addr token timeout = Inr s \<and> sync_passes s tol \<and>
    getLatestBlock net addr token timeout = Inr b \<and> Block_number b = Inr n \<and>
    set (Timestamp b) \<subseteq> {CHR ''0'', CHR ''x''} \<longrightarrow>
      fst (isReady net clk thr addr token timeout tol bt) =
        Some (BlockDecodeError FieldTimestamp ErrSyntax)) \<and>
   (getSyncing net addr token timeout = Inr s \<and> sync_passes s tol \<and>
    getLatestBlock net addr token timeout = Inr b \<and>
    (set (Number b) \<subseteq> {CHR ''0'', CHR ''x''} \<or> set (Timestamp b) \<subseteq> {CHR ''0'', CHR ''x''}) \<longrightarrow>
      (\<exists>f e. fst (isReady net clk thr addr token timeout tol bt) = Some (BlockDecodeError f e))) \<and>
   (getLatestBlock net addr token timeout = Inr b \<and>
    (set (Number b) \<subseteq> {CHR ''0'', CHR ''x''} \<or> set (Timestamp b) \<subseteq> {CHR ''0'', CHR ''x''}) \<longrightarrow>
      fst (isReady net clk thr addr token timeout tol bt) \<noteq> None)"
proof -
  have num: "fst (isReady net clk thr addr token timeout tol bt) = Some e"
    if "getSyncing net addr token timeout = Inr s" "sync_passes s tol"
      "getLatestBlock net addr token timeout = Inr b" "Block_number b = Inl e" for e
    using that isReady_block_number_error [of net addr token timeout b e clk thr bt]
    by (simp add: isReady_continues(1))
  have tim: "fst (isReady net clk thr addr token timeout tol bt) = Some e"
    if "getSyncing net addr token timeout = Inr s" "sync_passes s tol"
      "getLatestBlock net addr token timeout = Inr b" "Block_number b = Inr m" "Block_time b = Inl e" for e m
    using that isReady_block_number(2) [of net addr token timeout b m clk thr bt]
    by (simp add: isReady_continues(1) checkAge_time_error)
  have any: "\<exists>f e. fst (isReady net clk thr addr token timeout tol bt) = Some (BlockDecodeError f e)"
    if g: "getSyncing net addr token timeout = Inr s" "sync_passes s tol"
      and l: "getLatestBlock net addr token timeout = Inr b"
      and z: "set (Number b) \<subseteq> {CHR ''0'', CHR ''x''} \<or> set (Timestamp b) \<subseteq> {CHR ''0'', CHR ''x''}"
  proof (cases "Block_number b")
    case (Inl e)
    from Block_number_error [OF Inl] num [OF g l Inl] show ?thesis by blast
  next
    case (Inr m)
    with z Block_number_zero [of b] have "set (Timestamp b) \<subseteq> {CHR ''0'', CHR ''x''}" by auto
    from tim [OF g l Inr Block_time_zero [OF this]] show ?thesis by blast
  qed
  have fails: "fst (isReady net clk thr addr token timeout tol bt) \<noteq> None"
    if l: "getLatestBlock net addr token timeout = Inr b"
      and z: "set (Number b) \<subseteq> {CHR ''0'', CHR ''x''} \<or> set (Timestamp b) \<subseteq> {CHR ''0'', CHR ''x''}"
  proof (cases "getSyncing net addr token timeout")
    case (Inl err)
    then show ?thesis by (simp add: isReady_sync_error)
  next
    case (Inr s')
    show ?thesis
    proof (cases "sync_passes s' tol")
      case True
      have "\<exists>f e. fst (isReady net clk thr addr token timeout tol bt) = Some (BlockDecodeError f e)"
      proof (cases "Block_number b")
        case (Inl e)
        from Block_number_error [OF Inl]
          isReady_block_number_error [OF l Inl, of clk thr bt]
        show ?thesis by (auto simp: isReady_continues(1) [OF Inr True])
      next
        case Inr2: (Inr m)
        with z Block_number_zero [of b] have "set (Timestamp b) \<subseteq> {CHR ''0'', CHR ''x''}" by auto
        from isReady_block_number(2) [OF l Inr2, of clk thr bt] Block_time_zero [OF this]
        show ?thesis by (simp add: isReady_continues(1) [OF Inr True] checkAge_time_error)
      qed
      then show ?thesis by auto
    next
      case False
      then obtain si where "s' = Some si" "distance si > tol"
        by (auto simp: sync_passes_def not_le split: option.splits)
      with Inr show ?thesis by (simp add: isReady_lag)
    qed
  qed
  show ?thesis
    using num [of "BlockDecodeError FieldNumber ErrSyntax"]
      tim [of n "BlockDecodeError FieldTimestamp ErrSyntax"] any fails
      Block_number_zero [of b] Block_time_zero [of b]
    by blast
qed

theorem strict_decoders_reject_zero_witness:
  "set (Number \<lparr>Timestamp = ''0x00'', Number = ''0x0''\<rparr>) \<subseteq> {CHR ''0'', CHR ''x''} \<and>
   Block_number \<lparr>Timestamp = ''0x00'', Number = ''0x0''\<rparr> = Inl (BlockDecodeError FieldNumber ErrSyntax) \<and>
   set (Timestamp \<lparr>Timestamp = ''0x00'', Number = ''0x0''\<rparr>) \<subseteq> {CHR ''0'', CHR ''x''} \<and>
   Block_time \<lparr>Timestamp = ''0x00'', Number = ''0x0''\<rparr> = Inl (BlockDecodeError FieldTimestamp ErrSyntax) \<and>
   getSyncing (node (rpc_result (JBool False)) (rpc_result (block_object ''0x0'' ''0x3e8''))) ''n'' [] 5 = Inr None \<and>
   sync_passes None 0 \<and>
   getLatestBlock (node (rpc_result (JBool False)) (rpc_result (block_object ''0x0'' ''0x3e8''))) ''n'' [] 5 =
     Inr \<lparr>Timestamp = ''0x3e8'', Number = ''0x0''\<rparr> \<and>
   fst (isReady (node (rpc_result (JBool False)) (rpc_result (block_object ''0x0'' ''0x3e8'')))
     (clock_at (1000 * Second)) (60 * Second) ''n'' [] 5 0 (newBlockTrack 0)) =
     Some (BlockDecodeError FieldNumber ErrSyntax) \<and>
   getSyncing (node (rpc_result (JBool False)) (rpc_result (block_object ''0x1'' ''0x00''))) ''n'' [] 5 = Inr None \<and>
   getLatestBlock (node (rpc_result (JBool False)) (rpc_result (block_object ''0x1'' ''0x00''))) ''n'' [] 5 =
     Inr \<lparr>Timestamp = ''0x00'', Number = ''0x1''\<rparr> \<and>
   Block_number \<lparr>Timestamp = ''0x00'', Number = ''0x1''\<rparr> = Inr 1 \<and>
   fst (isReady (node (rpc_result (JBool False)) (rpc_result (block_object ''0x1'' ''0x00'')))
     (clock_at (1000 * Second)) (60 * Second) ''n'' [] 5 0 (newBlockTrack 0)) =
     Some (BlockDecodeError FieldTimestamp ErrSyntax)"
proof -
  let ?n1 = "node (rpc_result (JBool False)) (rpc_result (block_object ''0x0'' ''0x3e8''))"
  let ?n2 = "node (rpc_result (JBool False)) (rpc_result (block_object ''0x1'' ''0x00''))"
  have g: "getSyncing ?n1 ''n'' [] 5 = Inr None" "getSyncing ?n2 ''n'' [] 5 = Inr None"
    by code_simp+
  have l: "getLatestBlock ?n1 ''n'' [] 5 = Inr \<lparr>Timestamp = ''0x3e8'', Number = ''0x0''\<rparr>"
    "getLatestBlock ?n2 ''n'' [] 5 = Inr \<lparr>Timestamp = ''0x00'', Number = ''0x1''\<rparr>"
    by code_simp+
  have p: "sync_passes None 0" by (simp add: sync_passes_def)
  have n: "Block_number \<lparr>Timestamp = ''0x00'', Number = ''0x1''\<rparr> = Inr 1" by code_simp
  show ?thesis
    using
      strict_decoders_reject_zero [of "\<lparr>Timestamp = ''0x00'', Number = ''0x0''\<rparr>"]
      strict_decoders_reject_zero [of "\<lparr>Timestamp = ''0x3e8'', Number = ''0x0''\<rparr>" ?n1 "''n''" "[]" 5 None 0
        "clock_at (1000 * Second)" "60 * Second" "newBlockTrack 0"]
      strict_decoders_reject_zero [of "\<lparr>Timestamp = ''0x00'', Number = ''0x1''\<rparr>" ?n2 "''n''" "[]" 5 None 0
        "clock_at (1000 * Second)" "60 * Second" "newBlockTrack 0" 1]
    by (simp add: g l p n)
qed

text \<open>
  C6: the claim is that a malformed number or timestamp always makes the strict decoder
  fail. The decoders trim with \<^verbatim>\<open>strings.TrimLeft(s, "0x")\<close>, which removes every leading
  \<open>0\<close> and \<open>x\<close>, and the timestamp goes through \<^verbatim>\<open>ParseInt\<close>, which takes a sign. So
  \<open>x0x1a\<close> is read as 26, \<open>xx3e8\<close> as 1000 and \<open>0x-3e8\<close> as -1000, none of them a valid
  hex string, and \<open>isReady\<close> reports a healthy node on such a block and feeds 26 to the
  tracker.
\<close>

theorem strict_decoders_accept_malformed:
  "\<not> validHex ''x0x1a'' \<and>
   Block_number \<lparr>Timestamp = ''xx3e8'', Number = ''x0x1a''\<rparr> = Inr 26 \<and>
   \<not> validHex ''xx3e8'' \<and>
   Block_time \<lparr>Timestamp = ''xx3e8'', Number = ''x0x1a''\<rparr> = Inr (1000 * Second) \<and>
   \<not> validHex ''0x-3e8'' \<and>
   Block_time \<lparr>Timestamp = ''0x-3e8'', Number = ''x0x1a''\<rparr> = Inr (- 1000 * Second) \<and>
   isReady (node (rpc_result (JBool False)) (rpc_result (block_object ''x0x1a'' ''xx3e8'')))
     (clock_at (1000 * Second)) (60 * Second) ''n'' [] 5 0 (newBlockTrack 0) =
     (None, \<lparr>lastObservedNumber = Some 26, lastAdvanceTime = 1000 * Second\<rparr>,
      [Requested ''n'' Eth_syncing, Requested ''n'' Eth_getBlockByNumber])"
proof -
  have v: "\<not> validHex ''x0x1a''" "\<not> validHex ''xx3e8''" "\<not> validHex ''0x-3e8''"
    by (simp_all add: validHex_def hexDigitsOf_def isHexDigit_def)
  have n: "Block_number \<lparr>Timestamp = ''xx3e8'', Number = ''x0x1a''\<rparr> = Inr 26" by code_simp
  have t: "Block_time \<lparr>Timestamp = ''xx3e8'', Number = ''x0x1a''\<rparr> = Inr (1000 * Second)" by code_simp
  have m: "Block_time \<lparr>Timestamp = ''0x-3e8'', Number = ''x0x1a''\<rparr> = Inr (- 1000 * Second)" by code_simp
  have i: "isReady (node (rpc_result (JBool False)) (rpc_result (block_object ''x0x1a'' ''xx3e8'')))
     (clock_at (1000 * Second)) (60 * Second) ''n'' [] 5 0 (newBlockTrack 0) =
     (None, \<lparr>lastObservedNumber = Some 26, lastAdvanceTime = 1000 * Second\<rparr>,
      [Requested ''n'' Eth_syncing, Requested ''n'' Eth_getBlockByNumber])" by code_simp
  show ?thesis using v n t m i by simp
qed

section \<open>The block tracker\<close>

lemma AddBlock_advance:
  "lastObservedNumber t = None \<or> (\<exists>p. lastObservedNumber t = Some p \<and> p < n) \<Longrightarrow>
   AddBlock n now t = \<lparr>lastObservedNumber = Some n, lastAdvanceTime = now\<rparr>"
  by (auto simp: AddBlock_def)

lemma AddBlock_same:
  "lastObservedNumber t = Some p \<Longrightarrow> n \<le> p \<Longrightarrow> AddBlock n now t = t"
  by (simp add: AddBlock_def not_less [symmetric])

lemma poll_all_increasing:
  assumes "sorted_wrt (<) (map fst ps)" "\<forall>(n, a, c)\<in>set ps. c - a \<le> thr"
    "lastObservedNumber t = None \<or> (\<exists>p. lastObservedNumber t = Some p \<and> (\<forall>n\<in>set (map fst ps). p < n))"
  shows "\<forall>v\<in>set (poll_all thr ps t). v = None"
  using assms
proof (induction ps arbitrary: t)
  case Nil
  then show ?case by simp
next
  case (Cons q ps)
  obtain n a c where q: "q = (n, a, c)" by (cases q)
  let ?t = "\<lparr>lastObservedNumber = Some n, lastAdvanceTime = a\<rparr>"
  from Cons.prems(3) q have "AddBlock n a t = ?t"
    by (intro AddBlock_advance) auto
  moreover from Cons.prems(2) q have "HealthCheck thr c ?t = None"
    by (simp add: HealthCheck_def)
  moreover have "\<forall>v\<in>set (poll_all thr ps ?t). v = None"
  proof (rule Cons.IH)
    show "sorted_wrt (<) (map fst ps)" using Cons.prems(1) by simp
    show "\<forall>(n, a, c)\<in>set ps. c - a \<le> thr" using Cons.prems(2) by simp
    show "lastObservedNumber ?t = None \<or>
      (\<exists>p. lastObservedNumber ?t = Some p \<and> (\<forall>n\<in>set (map fst ps). p < n))"
      using Cons.prems(1) q by auto
  qed
  ultimately show ?case using q by simp
qed

lemma poll_all_repeated:
  assumes "lastObservedNumber t = Some n" "\<forall>(m, a, c)\<in>set ps. m \<le> n"
  shows "poll_all thr ps t = map (\<lambda>(m, a, c). HealthCheck thr c t) ps"
  using assms
proof (induction ps)
  case Nil
  then show ?case by simp
next
  case (Cons q ps)
  obtain m a c where q: "q = (m, a, c)" by (cases q)
  with Cons.prems have "AddBlock m a t = t" by (intro AddBlock_same [of t n]) auto
  with Cons q show ?case by simp
qed

text \<open>
  C3: \<open>AddBlock\<close> sets the observed number and the advance time when there is no prior
  observation or the number is strictly greater, and leaves the tracker as it is
  otherwise; \<open>HealthCheck\<close> returns \<open>StallDetected\<close> with the elapsed time exactly when the
  elapsed time exceeds the stall threshold. So polls of strictly increasing numbers,
  each checked within the threshold of its observation, never report a stall (the
  sequence 10, 11, 12 among them), and polls of one repeated number report a stall at
  every check later than the threshold after the first observation (the third poll of
  10, 10, 10 when it comes later than that).
\<close>

theorem tracker_observe_check:
  "(lastObservedNumber t = None \<or> (\<exists>p. lastObservedNumber t = Some p \<and> p < n) \<longrightarrow>
      AddBlock n now t = \<lparr>lastObservedNumber = Some n, lastAdvanceTime = now\<rparr>) \<and>
   ((\<exists>p. lastObservedNumber t = Some p \<and> n \<le> p) \<longrightarrow> AddBlock n now t = t) \<and>
   HealthCheck thr now t =
     (if thr < now - lastAdvanceTime t then Some (StallDetected (now - lastAdvanceTime t)) else None) \<and>
   (sorted_wrt (<) (map fst ps) \<and> (\<forall>(m, a, c)\<in>set ps. c - a \<le> thr) \<longrightarrow>
      (\<forall>v\<in>set (poll_all thr ps (newBlockTrack t0)). v = None)) \<and>
   (c1 - a1 \<le> thr \<and> c2 - a2 \<le> thr \<and> c3 - a3 \<le> thr \<longrightarrow>
      poll_all thr [(10, a1, c1), (11, a2, c2), (12, a3, c3)] (newBlockTrack t0) = [None, None, None]) \<and>
   ((\<forall>(m, a, c)\<in>set qs. m = n) \<longrightarrow>
      poll_all thr ((n, a1, c1) # qs) (newBlockTrack t0) =
        map (\<lambda>(m, a, c). if thr < c - a1 then Some (StallDetected (c - a1)) else None)
          ((n, a1, c1) # qs)) \<and>
   (thr < c3 - a1 \<longrightarrow>
      poll_all thr [(10, a1, c1), (10, a2, c2), (10, a3, c3)] (newBlockTrack t0) ! 2 =
        Some (StallDetected (c3 - a1)))"
proof -
  let ?t = "\<lambda>k. \<lparr>lastObservedNumber = Some k, lastAdvanceTime = a1\<rparr>"
  have h: "HealthCheck thr now t =
     (if thr < now - lastAdvanceTime t then Some (StallDetected (now - lastAdvanceTime t)) else None)"
    for now t
    by (simp add: HealthCheck_def Let_def)
  have inc: "sorted_wrt (<) (map fst ps) \<and> (\<forall>(m, a, c)\<in>set ps. c - a \<le> thr) \<longrightarrow>
      (\<forall>v\<in>set (poll_all thr ps (newBlockTrack t0)). v = None)" for ps
    using poll_all_increasing [of ps thr "newBlockTrack t0"]
    by (simp add: newBlockTrack_def)
  have lt: "(10 :: u64) < 11" "(10 :: u64) < 12" "(11 :: u64) < 12" by code_simp+
  have s3: "c1 - a1 \<le> thr \<and> c2 - a2 \<le> thr \<and> c3 - a3 \<le> thr \<longrightarrow>
      poll_all thr [(10, a1, c1), (11, a2, c2), (12, a3, c3)] (newBlockTrack t0) = [None, None, None]"
    by (simp add: AddBlock_def newBlockTrack_def HealthCheck_def Let_def lt)
  have first: "AddBlock k a1 (newBlockTrack t0) = ?t k" for k
    by (simp add: AddBlock_def newBlockTrack_def)
  have rep: "(\<forall>(m, a, c)\<in>set qs. m = n) \<longrightarrow>
      poll_all thr ((n, a1, c1) # qs) (newBlockTrack t0) =
        map (\<lambda>(m, a, c). if thr < c - a1 then Some (StallDetected (c - a1)) else None)
          ((n, a1, c1) # qs)" for qs n
  proof
    assume a: "\<forall>(m, a, c)\<in>set qs. m = n"
    then have "\<forall>(m, a, c)\<in>set qs. m \<le> n" by auto
    from poll_all_repeated [of "?t n" n qs thr, OF _ this]
    show "poll_all thr ((n, a1, c1) # qs) (newBlockTrack t0) =
        map (\<lambda>(m, a, c). if thr < c - a1 then Some (StallDetected (c - a1)) else None)
          ((n, a1, c1) # qs)"
      by (auto simp: first h)
  qed
  have r3: "thr < c3 - a1 \<longrightarrow>
      poll_all thr [(10, a1, c1), (10, a2, c2), (10, a3, c3)] (newBlockTrack t0) ! 2 =
        Some (StallDetected (c3 - a1))"
    using rep [of "[(10, a2, c2), (10, a3, c3)]" 10] by (simp add: numeral_2_eq_2)
  show ?thesis
    using AddBlock_advance [of t n now] AddBlock_same [of t _ n now] h [of now t] inc [of ps] s3
      rep [of qs n] r3
    by blast
qed

theorem tracker_observe_check_witness:
  "lastObservedNumber (newBlockTrack 0) = None \<and>
   AddBlock 10 (5 * Second) (newBlockTrack 0) =
     \<lparr>lastObservedNumber = Some 10, lastAdvanceTime = 5 * Second\<rparr> \<and>
   lastObservedNumber \<lparr>lastObservedNumber = Some 10, lastAdvanceTime = 5 * Second\<rparr> = Some 10 \<and>
   (10 :: u64) < 11 \<and>
   AddBlock 11 (17 * Second) \<lparr>lastObservedNumber = Some 10, lastAdvanceTime = 5 * Second\<rparr> =
     \<lparr>lastObservedNumber = Some 11, lastAdvanceTime = 17 * Second\<rparr> \<and>
   (9 :: u64) \<le> 10 \<and>
   AddBlock 9 (17 * Second) \<lparr>lastObservedNumber = Some 10, lastAdvanceTime = 5 * Second\<rparr> =
     \<lparr>lastObservedNumber = Some 10, lastAdvanceTime = 5 * Second\<rparr> \<and>
   sorted_wrt (<) (map fst [(10 :: u64, 0 :: int, 1 * Second), (11, 12 * Second, 13 * Second), (12, 24 * Second, 25 * Second)]) \<and>
   1 * Second - 0 \<le> 60 * Second \<and> 13 * Second - 12 * Second \<le> 60 * Second \<and>
   25 * Second - 24 * Second \<le> 60 * Second \<and>
   poll_all (60 * Second) [(10, 0, 1 * Second), (11, 12 * Second, 13 * Second), (12, 24 * Second, 25 * Second)]
     (newBlockTrack 0) = [None, None, None] \<and>
   60 * Second < 80 * Second - 0 \<and>
   poll_all (60 * Second) [(10, 0, 0), (10, 40 * Second, 40 * Second), (10, 80 * Second, 80 * Second)]
     (newBlockTrack 0) = [None, None, Some (StallDetected (80 * Second))]"
proof -
  note T1 = tracker_observe_check [THEN conjunct1, THEN mp]
  note T2 = tracker_observe_check [THEN conjunct2, THEN conjunct1, THEN mp]
  note T4 = tracker_observe_check [THEN conjunct2, THEN conjunct2, THEN conjunct2, THEN conjunct1, THEN mp]
  note T5 = tracker_observe_check [THEN conjunct2, THEN conjunct2, THEN conjunct2, THEN conjunct2,
      THEN conjunct1, THEN mp]
  note T6 = tracker_observe_check [THEN conjunct2, THEN conjunct2, THEN conjunct2, THEN conjunct2,
      THEN conjunct2, THEN conjunct1, THEN mp]
  note T7 = tracker_observe_check [THEN conjunct2, THEN conjunct2, THEN conjunct2, THEN conjunct2,
      THEN conjunct2, THEN conjunct2, THEN mp]
  let ?t = "\<lparr>lastObservedNumber = Some 10, lastAdvanceTime = 5 * Second\<rparr>"
  let ?inc = "[(10 :: u64, 0 :: int, 1 * Second), (11, 12 * Second, 13 * Second), (12, 24 * Second, 25 * Second)]"
  let ?rep = "[(10 :: u64, 0 :: int, 0 :: int), (10, 40 * Second, 40 * Second), (10, 80 * Second, 80 * Second)]"
  have lt: "(10 :: u64) < 11" "(9 :: u64) \<le> 10" "(10 :: u64) < 12" "(11 :: u64) < 12" by code_simp+
  have n: "lastObservedNumber (newBlockTrack 0) = None" by (simp add: newBlockTrack_def)
  have a1: "AddBlock 10 (5 * Second) (newBlockTrack 0) = ?t"
    by (rule T1) (simp add: n)
  have a2: "AddBlock 11 (17 * Second) ?t = \<lparr>lastObservedNumber = Some 11, lastAdvanceTime = 17 * Second\<rparr>"
    by (rule T1) (simp add: lt)
  have a3: "AddBlock 9 (17 * Second) ?t = ?t"
    by (rule T2) (simp add: lt)
  have so: "sorted_wrt (<) (map fst ?inc)" by (simp add: lt)
  have sp: "1 * Second - 0 \<le> 60 * Second" "13 * Second - 12 * Second \<le> 60 * Second"
    "25 * Second - 24 * Second \<le> 60 * Second" "60 * Second < 80 * Second - 0"
    by (simp_all add: Second_def)
  have "\<forall>v\<in>set (poll_all (60 * Second) ?inc (newBlockTrack 0)). v = None"
    by (rule T4) (simp add: lt Second_def)
  have p1: "poll_all (60 * Second) ?inc (newBlockTrack 0) = [None, None, None]"
    by (rule T5) (simp add: Second_def)
  have "poll_all (60 * Second) ?rep (newBlockTrack 0) ! 2 = Some (StallDetected (80 * Second - 0))"
    by (rule T7) (simp add: Second_def)
  have "poll_all (60 * Second) ?rep (newBlockTrack 0) =
      map (\<lambda>(m, a, c). if 60 * Second < c - 0 then Some (StallDetected (c - 0)) else None) ?rep"
    by (rule T6) simp
  then have p2: "poll_all (60 * Second) ?rep (newBlockTrack 0) =
      [None, None, Some (StallDetected (80 * Second))]"
    by (simp add: Second_def)
  show ?thesis
    using lt n a1 a2 a3 so sp p1 p2 by simp
qed

section \<open>One tracker for the whole process\<close>

lemma isReady_block_tracker:
  "fst (snd (isReady_block net clk thr addr token timeout bt)) =
     (case getLatestBlock net addr token timeout of
        Inl err \<Rightarrow> bt
      | Inr block \<Rightarrow>
          (case Block_number block of
             Inl err \<Rightarrow> bt
           | Inr blockNumber \<Rightarrow> AddBlock blockNumber (nowAddBlock clk) bt))"
  by (simp add: isReady_block_def Let_def split: sum.splits option.splits)

lemma isReady_tracker:
  "fst (snd (isReady (turnNet w) (turnClock w) thr addr (turnToken w) timeout tol bt)) =
     (case turn_observes timeout tol (addr, w) of
        None \<Rightarrow> bt
      | Some n \<Rightarrow> AddBlock n (nowAddBlock (turnClock w)) bt)"
proof (cases "getSyncing (turnNet w) addr (turnToken w) timeout")
  case (Inl err)
  then show ?thesis
    by (simp add: isReady_sync_error turn_observes_def)
next
  case (Inr s)
  show ?thesis
  proof (cases s)
    case None
    with Inr show ?thesis
      by (simp add: isReady_not_syncing isReady_block_tracker turn_observes_def
          split: sum.splits)
  next
    case (Some si)
    show ?thesis
    proof (cases "distance si > tol")
      case True
      with Inr Some show ?thesis
        by (simp add: isReady_lag turn_observes_def)
    next
      case False
      with Inr Some show ?thesis
        by (simp add: isReady_within isReady_block_tracker turn_observes_def
            split: sum.splits)
    qed
  qed
qed

text \<open>One updater alone is the case of \<open>run_turns\<close> where every turn has its address.\<close>

lemma update_body_tracker:
  "snd (update_body thr addr timeout True tol w (st, bt)) =
     fst (snd (isReady (turnNet w) (turnClock w) thr addr (turnToken w) timeout tol bt))"
  by (simp add: update_body_def split: prod.splits option.splits)

lemma update_run_turns:
  "snd (update thr addr timeout True tol ws (st, bt)) =
     snd (run_turns thr timeout tol (map (Pair addr) ws) bt)"
proof (induction ws arbitrary: st bt)
  case Nil
  show ?case by simp
next
  case (Cons w ws)
  obtain st' bt' where u: "update_body thr addr timeout True tol w (st, bt) = (st', bt')"
    by (cases "update_body thr addr timeout True tol w (st, bt)")
  with update_body_tracker [of thr addr timeout tol w st bt] have
    "bt' = fst (snd (isReady (turnNet w) (turnClock w) thr addr (turnToken w) timeout tol bt))"
    by simp
  with u Cons.IH [of st' bt'] show ?case
    by (simp split: prod.splits)
qed

text \<open>
  The turns of a process, whatever their addresses, thread the one tracker: each turn
  leaves it fed with its observation, and the verdict of a turn is the verdict of
  \<open>isReady\<close> on the tracker as all earlier turns have left it.
\<close>

lemma isReady_feed:
  "fst (snd (isReady (turnNet w) (turnClock w) thr addr (turnToken w) timeout tol bt)) =
     feed timeout tol bt (addr, w)"
  by (simp add: isReady_tracker feed_def cong: option.case_cong)

lemma run_turns_Cons:
  "run_turns thr timeout tol ((addr, w) # ts) bt =
     (fst (isReady (turnNet w) (turnClock w) thr addr (turnToken w) timeout tol bt) #
        fst (run_turns thr timeout tol ts (feed timeout tol bt (addr, w))),
      snd (run_turns thr timeout tol ts (feed timeout tol bt (addr, w))))"
  using isReady_feed [of w thr addr timeout tol bt]
  by (auto split: prod.splits)

lemma run_turns_tracker:
  "snd (run_turns thr timeout tol ts bt) = foldl (feed timeout tol) bt ts"
proof (induction ts arbitrary: bt)
  case Nil
  show ?case by simp
next
  case (Cons t ts)
  obtain addr w where t: "t = (addr, w)" by (cases t)
  show ?case
    unfolding t run_turns_Cons by (simp add: Cons.IH)
qed

lemma run_turns_verdict:
  "k < length ts \<Longrightarrow>
   fst (run_turns thr timeout tol ts bt) ! k =
     fst (isReady (turnNet (snd (ts ! k))) (turnClock (snd (ts ! k))) thr (fst (ts ! k))
            (turnToken (snd (ts ! k))) timeout tol (foldl (feed timeout tol) bt (take k ts)))"
proof (induction ts arbitrary: bt k)
  case Nil
  then show ?case by simp
next
  case (Cons t ts)
  obtain addr w where t: "t = (addr, w)" by (cases t)
  show ?case
  proof (cases k)
    case 0
    then show ?thesis unfolding t run_turns_Cons by simp
  next
    case (Suc j)
    with Cons.prems have "j < length ts" by simp
    from Cons.IH [OF this, of "feed timeout tol bt (addr, w)"] Suc
    show ?thesis unfolding t run_turns_Cons by simp
  qed
qed

lemma turn_at_sel:
  "turnNet (turn_at t) = stuck_and_live" "turnClock (turn_at t) = clock_at t" "turnToken (turn_at t) = []"
  by (simp_all add: turn_at_def)

text \<open>
  C9, as amended: the tracker is the one package variable of package \<open>execution\<close>, not
  a field owned by an adapter or poll loop, and every call of \<open>isReady\<close> works on it
  whatever its target. After any sequence of turns the tracker has been fed, in order,
  the block number of every turn that got as far as the observation, without regard to
  the address of the turn; the verdict of each turn is that of \<open>isReady\<close> on the tracker
  as the earlier turns, of any address, have left it; and for a turn that passes the
  freshness check it is the health check of that tracker after the turn's own
  observation, whatever the stall threshold.
\<close>

theorem shared_tracker:
  "snd (run_turns thr timeout tol ts bt) = foldl (feed timeout tol) bt ts \<and>
   (k < length ts \<longrightarrow>
      fst (run_turns thr timeout tol ts bt) ! k =
        fst (isReady (turnNet (snd (ts ! k))) (turnClock (snd (ts ! k))) thr (fst (ts ! k))
               (turnToken (snd (ts ! k))) timeout tol (foldl (feed timeout tol) bt (take k ts)))) \<and>
   (k < length ts \<and>
    getSyncing (turnNet (snd (ts ! k))) (fst (ts ! k)) (turnToken (snd (ts ! k))) timeout = Inr s \<and>
    sync_passes s tol \<and>
    getLatestBlock (turnNet (snd (ts ! k))) (fst (ts ! k)) (turnToken (snd (ts ! k))) timeout = Inr b \<and>
    Block_number b = Inr n \<and> checkAge (nowCheckAge (turnClock (snd (ts ! k)))) b = None \<longrightarrow>
      fst (run_turns thr timeout tol ts bt) ! k =
        HealthCheck thr (nowHealthCheck (turnClock (snd (ts ! k))))
          (AddBlock n (nowAddBlock (turnClock (snd (ts ! k))))
             (foldl (feed timeout tol) bt (take k ts))))"
proof -
  have v: "fst (run_turns thr timeout tol ts bt) ! k =
        HealthCheck thr (nowHealthCheck (turnClock (snd (ts ! k))))
          (AddBlock n (nowAddBlock (turnClock (snd (ts ! k))))
             (foldl (feed timeout tol) bt (take k ts)))"
    if k: "k < length ts"
      and g: "getSyncing (turnNet (snd (ts ! k))) (fst (ts ! k)) (turnToken (snd (ts ! k))) timeout = Inr s"
        "sync_passes s tol"
      and l: "getLatestBlock (turnNet (snd (ts ! k))) (fst (ts ! k)) (turnToken (snd (ts ! k))) timeout = Inr b"
        "Block_number b = Inr n"
      and c: "checkAge (nowCheckAge (turnClock (snd (ts ! k)))) b = None"
    using run_turns_verdict [OF k, of thr timeout tol bt] c
    by (simp add: isReady_continues(1) [OF g] isReady_block_number(2) [OF l])
  show ?thesis
    using run_turns_tracker [of thr timeout tol ts bt] run_turns_verdict [of k ts thr timeout tol bt] v
    by blast
qed

theorem shared_tracker_witness:
  "(2 :: nat) < length [(''b'', turn_at (1000 * Second)), (''a'', turn_at (1100 * Second)),
                        (''b'', turn_at (1100 * Second))] \<and>
   getSyncing stuck_and_live ''b'' [] 5 = Inr None \<and>
   sync_passes None 0 \<and>
   getLatestBlock stuck_and_live ''b'' [] 5 = Inr \<lparr>Timestamp = ''0x3e8'', Number = ''0x5''\<rparr> \<and>
   Block_number \<lparr>Timestamp = ''0x3e8'', Number = ''0x5''\<rparr> = Inr 5 \<and>
   checkAge (1100 * Second) \<lparr>Timestamp = ''0x3e8'', Number = ''0x5''\<rparr> = None \<and>
   foldl (feed 5 0) (newBlockTrack 0)
     (take 2 [(''b'', turn_at (1000 * Second)), (''a'', turn_at (1100 * Second)),
              (''b'', turn_at (1100 * Second))]) =
     \<lparr>lastObservedNumber = Some 100, lastAdvanceTime = 1100 * Second\<rparr> \<and>
   snd (run_turns (60 * Second) 5 0
          [(''b'', turn_at (1000 * Second)), (''a'', turn_at (1100 * Second)),
           (''b'', turn_at (1100 * Second))] (newBlockTrack 0)) =
     \<lparr>lastObservedNumber = Some 100, lastAdvanceTime = 1100 * Second\<rparr> \<and>
   fst (run_turns (60 * Second) 5 0
          [(''b'', turn_at (1000 * Second)), (''a'', turn_at (1100 * Second)),
           (''b'', turn_at (1100 * Second))] (newBlockTrack 0)) ! 2 =
     HealthCheck (60 * Second) (1100 * Second)
       (AddBlock 5 (1100 * Second) \<lparr>lastObservedNumber = Some 100, lastAdvanceTime = 1100 * Second\<rparr>) \<and>
   HealthCheck (60 * Second) (1100 * Second)
       (AddBlock 5 (1100 * Second) \<lparr>lastObservedNumber = Some 100, lastAdvanceTime = 1100 * Second\<rparr>) = None"
proof -
  let ?ts = "[(''b'', turn_at (1000 * Second)), (''a'', turn_at (1100 * Second)),
              (''b'', turn_at (1100 * Second))]"
  let ?b = "\<lparr>Timestamp = ''0x3e8'', Number = ''0x5''\<rparr>"
  let ?t = "\<lparr>lastObservedNumber = Some 100, lastAdvanceTime = 1100 * Second\<rparr>"
  note S = shared_tracker [where k = 2 and ts = ?ts and s = None and timeout = 5 and tol = 0
      and b = ?b and n = 5 and thr = "60 * Second" and bt = "newBlockTrack 0"]
  note S1 = S [THEN conjunct1]
  note S3 = S [THEN conjunct2, THEN conjunct2, THEN mp]
  have g: "getSyncing stuck_and_live ''b'' [] 5 = Inr None" by code_simp
  have p: "sync_passes None 0" by (simp add: sync_passes_def)
  have l: "getLatestBlock stuck_and_live ''b'' [] 5 = Inr ?b" by code_simp
  have n: "Block_number ?b = Inr 5" by code_simp
  have c: "checkAge (1100 * Second) ?b = None" by code_simp
  have f2: "foldl (feed 5 0) (newBlockTrack 0) (take 2 ?ts) = ?t" by code_simp
  have f3: "foldl (feed 5 0) (newBlockTrack 0) ?ts = ?t" by code_simp
  have h: "HealthCheck (60 * Second) (1100 * Second) (AddBlock 5 (1100 * Second) ?t) = None"
    by code_simp
  have k: "(2 :: nat) < length ?ts" by simp
  have nth: "?ts ! 2 = (''b'', turn_at (1100 * Second))" by simp
  have s: "snd (run_turns (60 * Second) 5 0 ?ts (newBlockTrack 0)) = ?t"
    using S1 by (simp only: f3)
  have v: "fst (run_turns (60 * Second) 5 0 ?ts (newBlockTrack 0)) ! 2 =
      HealthCheck (60 * Second) (1100 * Second) (AddBlock 5 (1100 * Second) ?t)"
    using S3
    by (simp only: nth fst_conv snd_conv turn_at_sel clock_at_sel g p l n c k f2 simp_thms)
  show ?thesis
    using k g p l n c f2 s v h by simp
qed

text \<open>
  The claim as stated fails when two targets are polled in one process. Target \<open>b\<close> stays
  at block 5. After its first turn the tracker holds block 5 and the time of that turn;
  after a following turn for target \<open>a\<close> (at block 100) it holds block 100 and the time
  of the turn of \<open>a\<close>: the stall clock that the next turn of \<open>b\<close> is judged on has been
  set by the other target. With a stall threshold of 60 seconds the second turn of
  \<open>b\<close>, 100 seconds after the first, reports a stall when \<open>b\<close> is polled alone and none
  when the turn of \<open>a\<close> comes in between.
\<close>

theorem shared_tracker_counterexample:
  "foldl (feed 5 0) (newBlockTrack 0) [(''b'', turn_at (1000 * Second))] =
     \<lparr>lastObservedNumber = Some 5, lastAdvanceTime = 1000 * Second\<rparr> \<and>
   foldl (feed 5 0) (newBlockTrack 0)
     [(''b'', turn_at (1000 * Second)), (''a'', turn_at (1100 * Second))] =
     \<lparr>lastObservedNumber = Some 100, lastAdvanceTime = 1100 * Second\<rparr> \<and>
   fst (run_turns (60 * Second) 5 0
     [(''b'', turn_at (1000 * Second)), (''b'', turn_at (1100 * Second))]
     (newBlockTrack 0)) = [None, Some (StallDetected (100 * Second))] \<and>
   fst (run_turns (60 * Second) 5 0
     [(''b'', turn_at (1000 * Second)), (''a'', turn_at (1100 * Second)),
      (''b'', turn_at (1100 * Second))]
     (newBlockTrack 0)) = [None, None, None]"
  by code_simp

end
